theory Spec2Isabelle
  imports Complex_Main "HOL-Library.Sublist"
begin

section \<open>Strings and JavaScript values\<close>

text \<open>
  Strings are byte lists (UTF-8). The three pictographs that the widget callbacks put in
  front of their messages are written as their UTF-8 bytes.
\<close>

definition check_mark :: string where
  "check_mark = [CHR 0xE2, CHR 0x9C, CHR 0x85]"

definition cross_mark :: string where
  "cross_mark = [CHR 0xE2, CHR 0x9D, CHR 0x8C]"

definition warning_sign :: string where
  "warning_sign = [CHR 0xE2, CHR 0x9A, CHR 0xA0, CHR 0xEF, CHR 0xB8, CHR 0x8F]"

text \<open>\<open>String.prototype.includes\<close>: the needle occurs as a contiguous run, compared
  character by character (so upper and lower case differ).\<close>

fun str_includes :: "string \<Rightarrow> string \<Rightarrow> bool" where
  "str_includes [] n = (n = [])"
| "str_includes (h # t) n = (prefix n (h # t) \<or> str_includes t n)"

text \<open>Lower-casing of the ASCII letters, for the comparison that the specification calls
  case-insensitive. The source has no such function.\<close>

definition toLowerCase :: "string \<Rightarrow> string" where
  "toLowerCase s =
     map (\<lambda>c. case map_of (zip ''ABCDEFGHIJKLMNOPQRSTUVWXYZ'' ''abcdefghijklmnopqrstuvwxyz'') c of
                 None \<Rightarrow> c | Some l \<Rightarrow> l) s"

definition includes_ignoring_case :: "string \<Rightarrow> string \<Rightarrow> bool" where
  "includes_ignoring_case hay needle = str_includes (toLowerCase hay) (toLowerCase needle)"

text \<open>The decimal text of a number, as a template literal renders \<open>response.status\<close>.\<close>

fun string_of_nat :: "nat \<Rightarrow> string" where
  "string_of_nat n =
     (if n < 10 then [''0123456789'' ! n]
      else string_of_nat (n div 10) @ [''0123456789'' ! (n mod 10)])"

declare string_of_nat.simps [simp del]

text \<open>
  A value that reaches a \<open>catch (error: any)\<close> clause. JavaScript lets any value be thrown
  or be the reason of a rejected promise: \<open>ThrownNullish\<close> is \<open>null\<close> or \<open>undefined\<close>
  (reading a property of it raises a TypeError), \<open>Thrown m\<close> is any other value, \<open>m\<close>
  being what its \<open>message\<close> property reads: \<open>Some s\<close> for a string, \<open>None\<close> for
  \<open>undefined\<close> (a thrown string or a plain object). \<open>ThrownOdd t i\<close> is a value
  whose message is neither a string nor undefined (a number, an array, an object, a
  Symbol): \<open>t\<close> is the text that a template literal gives for the message, \<open>None\<close> when
  the conversion raises a TypeError (as for a Symbol); \<open>i\<close> is what
  \<open>message.includes\<close> answers for \<open>'CORS'\<close> and for \<open>'cross-origin'\<close>, each as truthy
  or falsy, \<open>None\<close> when \<open>message.includes\<close> is not a function. The TypeErrors here
  are those of the engine; a message that throws a value of its own choosing when it is
  read or converted (a getter, a \<open>toString\<close>) is not modelled.
\<close>

datatype js_thrown =
    ThrownNullish
  | Thrown "string option"
  | ThrownOdd "string option" "(bool \<times> bool) option"

text \<open>What an awaited call of a collaborator comes to: its promise is fulfilled, it is
  rejected (or the call throws), or it never settles. No \<open>await\<close> of the source has a
  timeout.\<close>

datatype 'a awaited = Fulfilled 'a | Failed js_thrown | Unsettled

text \<open>What an \<open>async\<close> function hands to its caller; \<open>Pending\<close> is a promise that
  never settles, because the function waits for a call that never settles.\<close>

datatype 'a promise = Resolved 'a | Rejected js_thrown | Pending

text \<open>\<open>${error.message}\<close> inside a template literal: \<open>undefined\<close> is rendered by name.\<close>

fun template_text :: "string option \<Rightarrow> string" where
  "template_text None = ''undefined''"
| "template_text (Some s) = s"

text \<open>The text of \<open>${error.message}\<close> for a caught value, \<open>None\<close> when evaluating it
  raises a TypeError.\<close>

fun message_text :: "js_thrown \<Rightarrow> string option" where
  "message_text ThrownNullish = None"
| "message_text (Thrown m) = Some (template_text m)"
| "message_text (ThrownOdd t i) = t"

section \<open>Data of \<open>src/lib/axrapay.ts\<close>\<close>

record TestConfig =
  publishableKey :: string
  businessId :: string
  sdkToken :: string

text \<open>The options object given to \<open>new AxraPay\<close>.\<close>

record AxraPayOptions =
  opt_environment :: string
  opt_publishableKey :: string
  opt_sdkToken :: string
  opt_businessId :: string

text \<open>What \<open>createPaymentIntent\<close> resolves with: the text of \<open>${result.id}\<close> and the
  rest of the object as its JSON text.\<close>

record PaymentIntent =
  intent_id :: string
  intent_json :: string

record PaymentIntentParams =
  pi_amount :: rat
  pi_currency :: string
  pi_businessId :: string
  pi_description :: string

record CustomerData =
  cd_name :: string
  cd_email :: string
  cd_metadata :: "(string \<times> string) list option"

text \<open>
  The parameter objects of the two mount calls. The three callbacks are closures over the
  tester and over the container element; \<open>cf_container\<close> and \<open>tf_container\<close> name that
  element. What the callbacks do is \<open>cardForm_onSuccess\<close> ... \<open>tokenForm_onCancel\<close> below.
\<close>

record MountCardFormParams =
  cf_selector :: string
  cf_amount :: rat
  cf_currency :: string
  cf_businessId :: string
  cf_customerData :: CustomerData
  cf_description :: string
  cf_container :: string
  cf_style :: "(string \<times> string) list"

record MountTokenFormParams =
  tf_selector :: string
  tf_customerData :: CustomerData
  tf_container :: string

record Response =
  ok :: bool
  status :: nat

text \<open>Every call that leaves the harness: the constructor and the three methods of the
  underlying client, and the request of the CORS probe.\<close>

datatype sdk_call =
    New_AxraPay AxraPayOptions
  | CreatePaymentIntent PaymentIntentParams
  | MountCardForm MountCardFormParams
  | MountTokenForm MountTokenFormParams
  | Fetch string "(string \<times> string) list"

text \<open>
  The external collaborators. Each answer may depend on every call made so far (the first
  argument), so that any deterministic behaviour of the client is an instance.
  The constructor is called without \<open>await\<close> (a constructor that does not return stops
  the single thread of the page, so that no later state exists; it has no place here);
  the other four calls are awaited.
  \<open>engine_typeError p\<close> is the message of the TypeError that the engine raises when
  property \<open>p\<close> (\<open>message\<close>, \<open>id\<close>) is read from \<open>null\<close> or \<open>undefined\<close>, when
  \<open>includes\<close> is called where it is undefined or no function, and, for \<open>text\<close>, when a
  message cannot be converted to text; \<open>clock_now k\<close> is the text of
  \<open>new Date().toISOString().substr(11, 12)\<close> at the \<open>k\<close>-th reading of the clock.
\<close>

record Collaborators =
  sdk_new :: "sdk_call list \<Rightarrow> AxraPayOptions \<Rightarrow> js_thrown option"
  sdk_createPaymentIntent ::
    "sdk_call list \<Rightarrow> AxraPayOptions \<Rightarrow> PaymentIntentParams \<Rightarrow> PaymentIntent option awaited"
  sdk_mountCardForm :: "sdk_call list \<Rightarrow> AxraPayOptions \<Rightarrow> MountCardFormParams \<Rightarrow> unit awaited"
  sdk_mountTokenForm :: "sdk_call list \<Rightarrow> AxraPayOptions \<Rightarrow> MountTokenFormParams \<Rightarrow> unit awaited"
  http_fetch :: "sdk_call list \<Rightarrow> string \<Rightarrow> (string \<times> string) list \<Rightarrow> Response awaited"
  engine_typeError :: "string \<Rightarrow> string"
  clock_now :: "nat \<Rightarrow> string"

datatype ResultData =
    InitializedData bool
  | ErrorData "string option"
  | OddErrorData string
  | IntentData PaymentIntent
  | MountedData string string
  | StatusData nat

record TestResult =
  success :: bool
  message :: string
  data :: "ResultData option"

section \<open>The document\<close>

text \<open>
  The two target surfaces are elements found by id. A surface holds what React rendered
  first (\<open>InitialHint\<close>), nothing (\<open>innerHTML = ''\<close>), or one of the two skeletons that
  the mount probes write: a form area (\<open>#axrapay-card-form\<close>, \<open>#axrapay-token-form\<close>) and
  a result element (\<open>#cardFormResult\<close>, \<open>#tokenFormResult\<close>). What the client itself
  draws inside the form area is not modelled.
\<close>

datatype ResultContent =
    NoContent
  | TextContent string
  | DetailsPanel string string string

record ResultDiv =
  className :: "string list"
  content :: ResultContent

datatype FormArea =
    LoadingIndicator string
  | MountFailedNotice string string

datatype Surface =
    InitialHint
  | EmptySurface
  | CardFormSkeleton FormArea ResultDiv
  | TokenFormSkeleton FormArea ResultDiv

definition hidden_result :: ResultDiv where
  "hidden_result = \<lparr>className = [''mt-4'', ''hidden''], content = NoContent\<rparr>"

text \<open>\<open>container.querySelector('#cardFormResult')\<close> and its three siblings.\<close>

fun query_cardFormResult :: "Surface \<Rightarrow> ResultDiv option" where
  "query_cardFormResult (CardFormSkeleton f r) = Some r"
| "query_cardFormResult _ = None"

fun query_tokenFormResult :: "Surface \<Rightarrow> ResultDiv option" where
  "query_tokenFormResult (TokenFormSkeleton f r) = Some r"
| "query_tokenFormResult _ = None"

fun query_card_form :: "Surface \<Rightarrow> FormArea option" where
  "query_card_form (CardFormSkeleton f r) = Some f"
| "query_card_form _ = None"

fun query_token_form :: "Surface \<Rightarrow> FormArea option" where
  "query_token_form (TokenFormSkeleton f r) = Some f"
| "query_token_form _ = None"

text \<open>Writing an element back into the surface it was found in.\<close>

fun put_result :: "ResultDiv \<Rightarrow> Surface \<Rightarrow> Surface" where
  "put_result r' (CardFormSkeleton f r) = CardFormSkeleton f r'"
| "put_result r' (TokenFormSkeleton f r) = TokenFormSkeleton f r'"
| "put_result r' s = s"

fun put_form :: "FormArea \<Rightarrow> Surface \<Rightarrow> Surface" where
  "put_form f' (CardFormSkeleton f r) = CardFormSkeleton f' r"
| "put_form f' (TokenFormSkeleton f r) = TokenFormSkeleton f' r"
| "put_form f' s = s"

section \<open>The tester\<close>

record AxraPayTester =
  axraPay :: "AxraPayOptions option"
  isInitialized :: bool

text \<open>Everything a tester method can read or change: its own two fields, the document,
  and the trace of calls made to the collaborators.\<close>

record World =
  tester :: AxraPayTester
  document :: "string \<rightharpoonup> Surface"
  calls :: "sdk_call list"

definition new_AxraPayTester :: AxraPayTester where
  "new_AxraPayTester = \<lparr>axraPay = None, isInitialized = False\<rparr>"

definition isSDKInitialized :: "World \<Rightarrow> bool" where
  "isSDKInitialized w = isInitialized (tester w)"

definition record_call :: "sdk_call \<Rightarrow> World \<Rightarrow> World" where
  "record_call c w = w\<lparr>calls := calls w @ [c]\<rparr>"

definition demo_token :: string where
  "demo_token = ''demo-sdk-token-123''"

text \<open>\<open>config.sdkToken || 'demo-sdk-token-123'\<close>: the empty string is falsy.\<close>

definition token_or_demo :: "TestConfig \<Rightarrow> string" where
  "token_or_demo config = (if sdkToken config = [] then demo_token else sdkToken config)"

definition gate_result :: TestResult where
  "gate_result = \<lparr>success = False, message = ''Please initialize the SDK first'', data = None\<rparr>"

text \<open>
  The shape shared by the \<open>catch\<close> clauses of \<open>initializeSDK\<close>, \<open>testPaymentIntent\<close>,
  \<open>testCardForm\<close> and \<open>testTokenForm\<close>: they read \<open>error.message\<close> and build the
  envelope. Reading the property of \<open>null\<close> or \<open>undefined\<close> raises a TypeError inside the
  clause, and so does the template literal for a message that has no text; either
  rejects the promise of the method. \<open>OddErrorData t\<close> stands for a message value that
  is no string, named by its text.
\<close>

fun caught_result :: "Collaborators \<Rightarrow> string \<Rightarrow> js_thrown \<Rightarrow> TestResult promise" where
  "caught_result env label ThrownNullish =
     Rejected (Thrown (Some (engine_typeError env ''message'')))"
| "caught_result env label (Thrown m) =
     Resolved \<lparr>success = False, message = label @ template_text m, data = Some (ErrorData m)\<rparr>"
| "caught_result env label (ThrownOdd None i) =
     Rejected (Thrown (Some (engine_typeError env ''text'')))"
| "caught_result env label (ThrownOdd (Some t) i) =
     Resolved \<lparr>success = False, message = label @ t, data = Some (OddErrorData t)\<rparr>"

subsection \<open>\<open>initializeSDK\<close>\<close>

definition initializeSDK_catch ::
  "Collaborators \<Rightarrow> js_thrown \<Rightarrow> World \<Rightarrow> TestResult promise \<times> World" where
  "initializeSDK_catch env error w =
     (caught_result env ''SDK initialization failed: '' error,
      w\<lparr>tester := (tester w)\<lparr>isInitialized := False\<rparr>\<rparr>)"

text \<open>The argument of \<open>new AxraPay\<close>.\<close>

definition sdk_options :: "TestConfig \<Rightarrow> AxraPayOptions" where
  "sdk_options config =
     \<lparr>opt_environment = ''development'',
      opt_publishableKey = publishableKey config,
      opt_sdkToken = token_or_demo config,
      opt_businessId = businessId config\<rparr>"

definition initializeSDK ::
  "Collaborators \<Rightarrow> TestConfig \<Rightarrow> World \<Rightarrow> TestResult promise \<times> World" where
  "initializeSDK env config w =
     (if publishableKey config = [] \<or> businessId config = [] then
        initializeSDK_catch env
          (Thrown (Some ''Please provide both publishable key and business ID'')) w
      else
        let options = sdk_options config;
            w1 = record_call (New_AxraPay options) w
        in case sdk_new env (calls w) options of
             Some error \<Rightarrow> initializeSDK_catch env error w1
           | None \<Rightarrow>
               (Resolved \<lparr>success = True,
                          message = ''SDK initialized successfully! Business config loaded.'',
                          data = Some (InitializedData True)\<rparr>,
                w1\<lparr>tester := \<lparr>axraPay = Some options, isInitialized = True\<rparr>\<rparr>))"

subsection \<open>\<open>testPaymentIntent\<close>\<close>

text \<open>The gate of the three dependent probes: \<open>!this.isInitialized || !this.axraPay\<close>.\<close>

definition gate_closed :: "World \<Rightarrow> bool" where
  "gate_closed w = (\<not> isInitialized (tester w) \<or> axraPay (tester w) = None)"

text \<open>The argument of \<open>createPaymentIntent\<close>; the amount is the literal \<open>29.99\<close>.\<close>

definition paymentIntent_params :: "TestConfig \<Rightarrow> PaymentIntentParams" where
  "paymentIntent_params config =
     \<lparr>pi_amount = 2999 / 100, pi_currency = ''USD'',
      pi_businessId = businessId config,
      pi_description = ''SDK Test Payment''\<rparr>"

definition testPaymentIntent_try ::
  "Collaborators \<Rightarrow> TestConfig \<Rightarrow> AxraPayOptions \<Rightarrow> World \<Rightarrow> TestResult promise \<times> World" where
  "testPaymentIntent_try env config client w =
     (let params = paymentIntent_params config;
          w1 = record_call (CreatePaymentIntent params) w
      in case sdk_createPaymentIntent env (calls w) client params of
           Failed error \<Rightarrow> (caught_result env ''Payment intent creation failed: '' error, w1)
         | Unsettled \<Rightarrow> (Pending, w1)
         | Fulfilled result \<Rightarrow>
             (case result of
                None \<Rightarrow>
                  (caught_result env ''Payment intent creation failed: ''
                     (Thrown (Some (engine_typeError env ''id''))), w1)
              | Some intent \<Rightarrow>
                  (Resolved \<lparr>success = True,
                             message = ''Payment intent created successfully! ID: '' @ intent_id intent,
                             data = Some (IntentData intent)\<rparr>, w1)))"

definition testPaymentIntent ::
  "Collaborators \<Rightarrow> TestConfig \<Rightarrow> World \<Rightarrow> TestResult promise \<times> World" where
  "testPaymentIntent env config w =
     (if gate_closed w then (Resolved gate_result, w)
      else case axraPay (tester w) of
             None \<Rightarrow> (Resolved gate_result, w)
           | Some client \<Rightarrow> testPaymentIntent_try env config client w)"

subsection \<open>\<open>testCardForm\<close> and its callbacks\<close>

definition card_skeleton :: Surface where
  "card_skeleton =
     CardFormSkeleton (LoadingIndicator ''Loading AxraPay Card Form...'') hidden_result"

datatype result_type = Success_type | Error_type

definition result_classes :: "result_type \<Rightarrow> string list" where
  "result_classes type =
     [''mt-4'', ''p-4'', ''rounded-lg'', ''border''] @
     (case type of
        Success_type \<Rightarrow> [''bg-green-50'', ''text-green-800'', ''border-green-200'']
      | Error_type \<Rightarrow> [''bg-red-50'', ''text-red-800'', ''border-red-200''])"

text \<open>
  \<open>showCardFormResult\<close>. The first argument is what \<open>querySelector\<close> found (\<open>None\<close> for
  \<open>null\<close>, where the method returns at once); \<open>payload\<close> is the JSON text of the optional
  fourth argument. The result is the element as the method leaves it.
\<close>

fun showCardFormResult ::
  "ResultDiv option \<Rightarrow> string \<Rightarrow> result_type \<Rightarrow> string option \<Rightarrow> ResultDiv option" where
  "showCardFormResult None msg type payload = None"
| "showCardFormResult (Some resultDiv) msg type payload =
     (let d1 = resultDiv\<lparr>className := result_classes type\<rparr>;
          d2 = (case payload of
                  Some json \<Rightarrow>
                    if type = Success_type
                    then d1\<lparr>content := DetailsPanel msg ''View Payment Details'' json\<rparr>
                    else d1\<lparr>content := TextContent msg\<rparr>
                | None \<Rightarrow> d1\<lparr>content := TextContent msg\<rparr>)
      in Some (d2\<lparr>className := filter (\<lambda>c. c \<noteq> ''hidden'') (className d2)\<rparr>))"

text \<open>
  What a card-form callback does with the container it closed over: look the result
  element up in the container as it is now, and show the message there. The closure
  holds the element that \<open>getElementById\<close> returned at mount time; the page keeps one
  element per id for its whole life, so the element is looked up by its id here.
\<close>

definition cardForm_callback ::
  "string \<Rightarrow> string \<Rightarrow> result_type \<Rightarrow> string option \<Rightarrow> World \<Rightarrow> World" where
  "cardForm_callback containerId msg type payload w =
     (case document w containerId of
        None \<Rightarrow> w
      | Some container \<Rightarrow>
          (case showCardFormResult (query_cardFormResult container) msg type payload of
             None \<Rightarrow> w
           | Some resultDiv \<Rightarrow>
               w\<lparr>document := (document w)(containerId \<mapsto> put_result resultDiv container)\<rparr>))"

text \<open>The result object of a finished payment: the text of \<open>${result.id}\<close> and the JSON
  text of the object.\<close>

record PaymentResult =
  payment_id :: string
  payment_json :: string

definition cardForm_onSuccess :: "string \<Rightarrow> PaymentResult \<Rightarrow> World \<Rightarrow> World" where
  "cardForm_onSuccess containerId result =
     cardForm_callback containerId
       (check_mark @ '' Payment successful! ID: '' @ payment_id result)
       Success_type (Some (payment_json result))"

definition cardForm_onError :: "string \<Rightarrow> string \<Rightarrow> World \<Rightarrow> World" where
  "cardForm_onError containerId error =
     cardForm_callback containerId (cross_mark @ '' Payment failed: '' @ error) Error_type None"

definition cardForm_onCancel :: "string \<Rightarrow> World \<Rightarrow> World" where
  "cardForm_onCancel containerId =
     cardForm_callback containerId (warning_sign @ '' Payment cancelled by user'') Error_type None"

text \<open>The \<open>catch\<close> clause of \<open>testCardForm\<close>: the notice is written only where the form
  area is found, and the template of the notice reads \<open>error.message\<close> too.\<close>

definition testCardForm_catch ::
  "Collaborators \<Rightarrow> string \<Rightarrow> js_thrown \<Rightarrow> World \<Rightarrow> TestResult promise \<times> World" where
  "testCardForm_catch env containerId error w =
     (let w1 =
        (case document w containerId of
           None \<Rightarrow> w
         | Some container \<Rightarrow>
             (case query_card_form container of
                None \<Rightarrow> w
              | Some formContainer \<Rightarrow>
                  (case message_text error of
                     None \<Rightarrow> w
                   | Some t \<Rightarrow>
                       w\<lparr>document := (document w)(containerId \<mapsto>
                           put_form (MountFailedNotice ''Card Form Mounting Failed'' t)
                             container)\<rparr>)))
      in (caught_result env ''Card form mounting failed: '' error, w1))"

text \<open>The argument of \<open>mountCardForm\<close>.\<close>

definition cardForm_params :: "TestConfig \<Rightarrow> string \<Rightarrow> MountCardFormParams" where
  "cardForm_params config containerId =
     \<lparr>cf_selector = ''#'' @ containerId @ '' #axrapay-card-form'',
      cf_amount = 2999 / 100,
      cf_currency = ''USD'',
      cf_businessId = businessId config,
      cf_customerData = \<lparr>cd_name = ''Test User'', cd_email = ''test@example.com'',
                          cd_metadata = None\<rparr>,
      cf_description = ''Test Payment via AxraPay SDK'',
      cf_container = containerId,
      cf_style = [(''backgroundColor'', ''#ffffff''), (''color'', ''#374151''),
                  (''borderRadius'', ''8px''), (''padding'', ''16px''),
                  (''fontSize'', ''14px''), (''fontFamily'', ''Inter, sans-serif'')]\<rparr>"

definition testCardForm_try ::
  "Collaborators \<Rightarrow> TestConfig \<Rightarrow> string \<Rightarrow> AxraPayOptions \<Rightarrow> World \<Rightarrow> TestResult promise \<times> World" where
  "testCardForm_try env config containerId client w =
     (case document w containerId of
        None \<Rightarrow>
          testCardForm_catch env containerId
            (Thrown (Some (''Container with id '' @ [CHR 0x27] @ containerId @ [CHR 0x27] @ '' not found''))) w
      | Some container \<Rightarrow>
          let w1 = w\<lparr>document := (document w)(containerId \<mapsto> card_skeleton)\<rparr>;
              params = cardForm_params config containerId;
              w2 = record_call (MountCardForm params) w1
          in (case sdk_mountCardForm env (calls w) client params of
                Failed error \<Rightarrow> testCardForm_catch env containerId error w2
              | Unsettled \<Rightarrow> (Pending, w2)
              | Fulfilled u \<Rightarrow>
                  (Resolved \<lparr>success = True,
                             message = ''AxraPay card form mounted successfully! Try making a payment.'',
                             data = Some (MountedData containerId ''mountCardForm'')\<rparr>, w2)))"

definition testCardForm ::
  "Collaborators \<Rightarrow> TestConfig \<Rightarrow> string \<Rightarrow> World \<Rightarrow> TestResult promise \<times> World" where
  "testCardForm env config containerId w =
     (if gate_closed w then (Resolved gate_result, w)
      else case axraPay (tester w) of
             None \<Rightarrow> (Resolved gate_result, w)
           | Some client \<Rightarrow> testCardForm_try env config containerId client w)"

subsection \<open>\<open>testTokenForm\<close> and its callbacks\<close>

text \<open>The two \<open>console.log\<close> lines of \<open>testTokenForm\<close> write to the console only and
  are left out.\<close>

definition token_skeleton :: Surface where
  "token_skeleton =
     TokenFormSkeleton (LoadingIndicator ''Loading AxraPay Token Form...'') hidden_result"

fun showTokenFormResult ::
  "ResultDiv option \<Rightarrow> string \<Rightarrow> result_type \<Rightarrow> string option \<Rightarrow> ResultDiv option" where
  "showTokenFormResult None msg type payload = None"
| "showTokenFormResult (Some resultDiv) msg type payload =
     (let d1 = resultDiv\<lparr>className := result_classes type\<rparr>;
          d2 = (case payload of
                  Some json \<Rightarrow>
                    if type = Success_type
                    then d1\<lparr>content := DetailsPanel msg ''View Token Details'' json\<rparr>
                    else d1\<lparr>content := TextContent msg\<rparr>
                | None \<Rightarrow> d1\<lparr>content := TextContent msg\<rparr>)
      in Some (d2\<lparr>className := filter (\<lambda>c. c \<noteq> ''hidden'') (className d2)\<rparr>))"

definition tokenForm_callback ::
  "string \<Rightarrow> string \<Rightarrow> result_type \<Rightarrow> string option \<Rightarrow> World \<Rightarrow> World" where
  "tokenForm_callback containerId msg type payload w =
     (case document w containerId of
        None \<Rightarrow> w
      | Some container \<Rightarrow>
          (case showTokenFormResult (query_tokenFormResult container) msg type payload of
             None \<Rightarrow> w
           | Some resultDiv \<Rightarrow>
               w\<lparr>document := (document w)(containerId \<mapsto> put_result resultDiv container)\<rparr>))"

text \<open>The result object of a finished tokenisation: the text of \<open>${result.token.id}\<close> and
  the JSON text of the object.\<close>

record TokenResult =
  token_id :: string
  token_json :: string

definition tokenForm_onSuccess :: "string \<Rightarrow> TokenResult \<Rightarrow> World \<Rightarrow> World" where
  "tokenForm_onSuccess containerId result =
     tokenForm_callback containerId
       (check_mark @ '' Token created successfully! ID: '' @ token_id result)
       Success_type (Some (token_json result))"

definition tokenForm_onError :: "string \<Rightarrow> string \<Rightarrow> World \<Rightarrow> World" where
  "tokenForm_onError containerId error =
     tokenForm_callback containerId (cross_mark @ '' Token creation failed: '' @ error) Error_type None"

definition tokenForm_onCancel :: "string \<Rightarrow> World \<Rightarrow> World" where
  "tokenForm_onCancel containerId =
     tokenForm_callback containerId (warning_sign @ '' Token creation cancelled by user'')
       Error_type None"

definition testTokenForm_catch ::
  "Collaborators \<Rightarrow> string \<Rightarrow> js_thrown \<Rightarrow> World \<Rightarrow> TestResult promise \<times> World" where
  "testTokenForm_catch env containerId error w =
     (let w1 =
        (case document w containerId of
           None \<Rightarrow> w
         | Some container \<Rightarrow>
             (case query_token_form container of
                None \<Rightarrow> w
              | Some formContainer \<Rightarrow>
                  (case message_text error of
                     None \<Rightarrow> w
                   | Some t \<Rightarrow>
                       w\<lparr>document := (document w)(containerId \<mapsto>
                           put_form (MountFailedNotice ''Token Form Mounting Failed'' t)
                             container)\<rparr>)))
      in (caught_result env ''Token form mounting failed: '' error, w1))"

text \<open>The argument of \<open>mountTokenForm\<close>.\<close>

definition tokenForm_params :: "TestConfig \<Rightarrow> string \<Rightarrow> MountTokenFormParams" where
  "tokenForm_params config containerId =
     \<lparr>tf_selector = ''#'' @ containerId @ '' #axrapay-token-form'',
      tf_customerData = \<lparr>cd_name = ''Test User'', cd_email = ''test@example.com'',
                          cd_metadata = Some [(''test'', ''true''), (''source'', ''sdk-test'')]\<rparr>,
      tf_container = containerId\<rparr>"

definition testTokenForm_try ::
  "Collaborators \<Rightarrow> TestConfig \<Rightarrow> string \<Rightarrow> AxraPayOptions \<Rightarrow> World \<Rightarrow> TestResult promise \<times> World" where
  "testTokenForm_try env config containerId client w =
     (case document w containerId of
        None \<Rightarrow>
          testTokenForm_catch env containerId
            (Thrown (Some (''Container with id '' @ [CHR 0x27] @ containerId @ [CHR 0x27] @ '' not found''))) w
      | Some container \<Rightarrow>
          let w1 = w\<lparr>document := (document w)(containerId \<mapsto> token_skeleton)\<rparr>;
              params = tokenForm_params config containerId;
              w2 = record_call (MountTokenForm params) w1
          in (case sdk_mountTokenForm env (calls w) client params of
                Failed error \<Rightarrow> testTokenForm_catch env containerId error w2
              | Unsettled \<Rightarrow> (Pending, w2)
              | Fulfilled u \<Rightarrow>
                  (Resolved \<lparr>success = True,
                             message = ''AxraPay token form mounted successfully! Try creating a token.'',
                             data = Some (MountedData containerId ''mountTokenForm'')\<rparr>, w2)))"

definition testTokenForm ::
  "Collaborators \<Rightarrow> TestConfig \<Rightarrow> string \<Rightarrow> World \<Rightarrow> TestResult promise \<times> World" where
  "testTokenForm env config containerId w =
     (if gate_closed w then (Resolved gate_result, w)
      else case axraPay (tester w) of
             None \<Rightarrow> (Resolved gate_result, w)
           | Some client \<Rightarrow> testTokenForm_try env config containerId client w)"

subsection \<open>\<open>testCORS\<close>\<close>

text \<open>
  The \<open>catch\<close> clause of \<open>testCORS\<close> calls \<open>error.message.includes\<close> before it builds an
  envelope: a value without a message raises a TypeError there, as \<open>null\<close> does, and
  so does a message on which \<open>includes\<close> is no function.
\<close>

fun testCORS_catch :: "Collaborators \<Rightarrow> js_thrown \<Rightarrow> TestResult promise" where
  "testCORS_catch env ThrownNullish = Rejected (Thrown (Some (engine_typeError env ''message'')))"
| "testCORS_catch env (Thrown None) = Rejected (Thrown (Some (engine_typeError env ''includes'')))"
| "testCORS_catch env (Thrown (Some m)) =
     (if str_includes m ''CORS'' \<or> str_includes m ''cross-origin''
      then Resolved \<lparr>success = False,
                     message = ''CORS test failed - CORS error: '' @ m,
                     data = Some (ErrorData (Some m))\<rparr>
      else Resolved \<lparr>success = False,
                     message = ''CORS test failed: '' @ m,
                     data = Some (ErrorData (Some m))\<rparr>)"
| "testCORS_catch env (ThrownOdd t None) =
     Rejected (Thrown (Some (engine_typeError env ''includes'')))"
| "testCORS_catch env (ThrownOdd None (Some found)) =
     Rejected (Thrown (Some (engine_typeError env ''text'')))"
| "testCORS_catch env (ThrownOdd (Some t) (Some found)) =
     (if fst found \<or> snd found
      then Resolved \<lparr>success = False,
                     message = ''CORS test failed - CORS error: '' @ t,
                     data = Some (OddErrorData t)\<rparr>
      else Resolved \<lparr>success = False,
                     message = ''CORS test failed: '' @ t,
                     data = Some (OddErrorData t)\<rparr>)"

definition testCORS_response :: "Response \<Rightarrow> TestResult" where
  "testCORS_response response =
     (if ok response
      then \<lparr>success = True,
            message = ''CORS test passed! Cross-origin requests are working correctly.'',
            data = Some (StatusData (status response))\<rparr>
      else \<lparr>success = False,
            message = ''CORS test failed - HTTP error: '' @ string_of_nat (status response),
            data = Some (StatusData (status response))\<rparr>)"

text \<open>The address and the headers of the request.\<close>

definition cors_url :: "TestConfig \<Rightarrow> string" where
  "cors_url config = ''https://dev.gopremium.africa/api/sdk/config?businessId='' @ businessId config"

definition cors_headers :: "TestConfig \<Rightarrow> (string \<times> string) list" where
  "cors_headers config =
     [(''X-AxraPay-Publishable-Key'', publishableKey config),
      (''Authorization'', ''Bearer '' @ token_or_demo config)]"

definition testCORS ::
  "Collaborators \<Rightarrow> TestConfig \<Rightarrow> World \<Rightarrow> TestResult promise \<times> World" where
  "testCORS env config w =
     (let url = cors_url config;
          headers = cors_headers config;
          w1 = record_call (Fetch url headers) w
      in case http_fetch env (calls w) url headers of
           Fulfilled response \<Rightarrow> (Resolved (testCORS_response response), w1)
         | Failed error \<Rightarrow> (testCORS_catch env error, w1)
         | Unsettled \<Rightarrow> (Pending, w1))"

subsection \<open>Sequences of calls on one tester\<close>

text \<open>The callbacks that the client may invoke after a mount, with their arguments.\<close>

datatype Callback =
    CardSuccess PaymentResult
  | CardError string
  | CardCancel
  | TokenSuccess TokenResult
  | TokenError string
  | TokenCancel

fun deliver :: "string \<Rightarrow> Callback \<Rightarrow> World \<Rightarrow> World" where
  "deliver containerId (CardSuccess result) w = cardForm_onSuccess containerId result w"
| "deliver containerId (CardError error) w = cardForm_onError containerId error w"
| "deliver containerId CardCancel w = cardForm_onCancel containerId w"
| "deliver containerId (TokenSuccess result) w = tokenForm_onSuccess containerId result w"
| "deliver containerId (TokenError error) w = tokenForm_onError containerId error w"
| "deliver containerId TokenCancel w = tokenForm_onCancel containerId w"

text \<open>\<open>if (container) container.innerHTML = ''\<close>, as the two clear buttons of the page do.\<close>

definition clear_surface :: "string \<Rightarrow> World \<Rightarrow> World" where
  "clear_surface containerId w =
     (case document w containerId of
        None \<Rightarrow> w
      | Some container \<Rightarrow> w\<lparr>document := (document w)(containerId \<mapsto> EmptySurface)\<rparr>)"

text \<open>
  Everything that can happen to a tester and its document: a call of one of its five
  methods, a callback of a mounted widget, the page clearing a surface. The class has no
  other method that writes its fields.
\<close>

datatype Event =
    Call_initializeSDK TestConfig
  | Call_testPaymentIntent TestConfig
  | Call_testCardForm TestConfig string
  | Call_testTokenForm TestConfig string
  | Call_testCORS TestConfig
  | Callback_fires string Callback
  | Surface_cleared string

fun perform :: "Collaborators \<Rightarrow> Event \<Rightarrow> World \<Rightarrow> TestResult promise option \<times> World" where
  "perform env (Call_initializeSDK config) w = map_prod Some id (initializeSDK env config w)"
| "perform env (Call_testPaymentIntent config) w = map_prod Some id (testPaymentIntent env config w)"
| "perform env (Call_testCardForm config containerId) w =
     map_prod Some id (testCardForm env config containerId w)"
| "perform env (Call_testTokenForm config containerId) w =
     map_prod Some id (testTokenForm env config containerId w)"
| "perform env (Call_testCORS config) w = map_prod Some id (testCORS env config w)"
| "perform env (Callback_fires containerId cb) w = (None, deliver containerId cb w)"
| "perform env (Surface_cleared containerId) w = (None, clear_surface containerId w)"

fun run :: "Collaborators \<Rightarrow> Event list \<Rightarrow> World \<Rightarrow> World" where
  "run env [] w = w"
| "run env (e # es) w = run env es (snd (perform env e w))"

text \<open>A promise that resolved with \<open>success: true\<close>.\<close>

fun succeeded :: "TestResult promise \<Rightarrow> bool" where
  "succeeded (Resolved result) = success result"
| "succeeded (Rejected error) = False"
| "succeeded Pending = False"

fun is_initializeSDK :: "Event \<Rightarrow> bool" where
  "is_initializeSDK (Call_initializeSDK config) = True"
| "is_initializeSDK _ = False"

text \<open>No call of \<open>initializeSDK\<close> in the sequence, run from \<open>w\<close>, fails.\<close>

fun no_failed_initializeSDK :: "Collaborators \<Rightarrow> Event list \<Rightarrow> World \<Rightarrow> bool" where
  "no_failed_initializeSDK env [] w = True"
| "no_failed_initializeSDK env (e # es) w =
     ((if is_initializeSDK e
       then (case fst (perform env e w) of Some p \<Rightarrow> succeeded p | None \<Rightarrow> False)
       else True)
      \<and> no_failed_initializeSDK env es (snd (perform env e w)))"

section \<open>The page: \<open>src/App.tsx\<close>\<close>

datatype LogType = Info | Success | Error

record LogEntry =
  timestamp :: string
  log_message :: string
  log_type :: LogType

record Results =
  init :: "TestResult option"
  payment :: "TestResult option"
  cardForm :: "TestResult option"
  tokenForm :: "TestResult option"
  cors :: "TestResult option"

text \<open>
  The state of the component (\<open>config\<close>, \<open>logs\<close>, \<open>results\<close>), its tester and the
  document, and the number of clock readings made so far. A handler is run to its end
  before the next action starts: the page is single-threaded and its actions are
  triggered by the user one at a time, so the suspension of a handler at its \<open>await\<close>
  is not interleaved with other actions here.
\<close>

record App =
  config :: TestConfig
  world :: World
  logs :: "LogEntry list"
  results :: Results
  clock_reads :: nat

definition initial_App :: App where
  "initial_App =
     \<lparr>config = \<lparr>publishableKey = ''pk_test_demo_key'', businessId = ''demo-business-123'',
                sdkToken = []\<rparr>,
      world = \<lparr>tester = new_AxraPayTester,
               document = [''cardFormContainer'' \<mapsto> InitialHint,
                           ''tokenFormContainer'' \<mapsto> InitialHint],
               calls = []\<rparr>,
      logs = [],
      results = \<lparr>init = None, payment = None, cardForm = None, tokenForm = None, cors = None\<rparr>,
      clock_reads = 0\<rparr>"

definition addLog :: "Collaborators \<Rightarrow> string \<Rightarrow> LogType \<Rightarrow> App \<Rightarrow> App" where
  "addLog env msg type app =
     app\<lparr>logs := logs app @ [\<lparr>timestamp = clock_now env (clock_reads app),
                               log_message = msg, log_type = type\<rparr>],
         clock_reads := Suc (clock_reads app)\<rparr>"

definition clearLogs :: "App \<Rightarrow> App" where
  "clearLogs app = app\<lparr>logs := []\<rparr>"

text \<open>
  The part that the five handlers share after the tester's promise has settled: the
  \<open>try\<close> branch stores the envelope and logs by its \<open>success\<close> field, the \<open>catch\<close>
  branch builds an envelope from \<open>error.message\<close>. \<open>slot\<close> writes the handler's field of
  \<open>results\<close>, \<open>success_text\<close> is the text logged on success, \<open>label\<close> the prefix put
  before the message on failure. While the tester's promise is pending the handler stays
  at its \<open>await\<close> and does neither.
\<close>

fun settle ::
  "Collaborators \<Rightarrow> (TestResult option \<Rightarrow> Results \<Rightarrow> Results) \<Rightarrow> (TestResult \<Rightarrow> string) \<Rightarrow> string \<Rightarrow>
   TestResult promise \<Rightarrow> App \<Rightarrow> unit promise \<times> App" where
  "settle env slot success_text label (Resolved result) app =
     (let a1 = app\<lparr>results := slot (Some result) (results app)\<rparr>
      in (Resolved (),
          if success result then addLog env (success_text result) Success a1
          else addLog env (label @ message result) Error a1))"
| "settle env slot success_text label (Rejected ThrownNullish) app =
     (Rejected (Thrown (Some (engine_typeError env ''message''))), app)"
| "settle env slot success_text label (Rejected (Thrown m)) app =
     (let errorResult = \<lparr>success = False, message = label @ template_text m, data = None\<rparr>;
          a1 = app\<lparr>results := slot (Some errorResult) (results app)\<rparr>
      in (Resolved (), addLog env (label @ template_text m) Error a1))"
| "settle env slot success_text label (Rejected (ThrownOdd None i)) app =
     (Rejected (Thrown (Some (engine_typeError env ''text''))), app)"
| "settle env slot success_text label (Rejected (ThrownOdd (Some t) i)) app =
     (let errorResult = \<lparr>success = False, message = label @ t, data = None\<rparr>;
          a1 = app\<lparr>results := slot (Some errorResult) (results app)\<rparr>
      in (Resolved (), addLog env (label @ t) Error a1))"
| "settle env slot success_text label Pending app = (Pending, app)"

definition testSDKInitialization :: "Collaborators \<Rightarrow> App \<Rightarrow> unit promise \<times> App" where
  "testSDKInitialization env app =
     (let a1 = addLog env ''Starting SDK initialization test...'' Info app;
          a2 = a1\<lparr>results := (results a1)\<lparr>init := None\<rparr>\<rparr>;
          r = initializeSDK env (config a2) (world a2)
      in settle env (\<lambda>v rs. rs\<lparr>init := v\<rparr>)
           (\<lambda>result. ''SDK initialized successfully!'')
           ''SDK initialization failed: '' (fst r) (a2\<lparr>world := snd r\<rparr>))"

text \<open>\<open>${result.data?.id}\<close>: the identifier when the data is a payment intent.\<close>

fun data_id_text :: "ResultData option \<Rightarrow> string" where
  "data_id_text (Some (IntentData intent)) = intent_id intent"
| "data_id_text _ = ''undefined''"

definition App_testPaymentIntent :: "Collaborators \<Rightarrow> App \<Rightarrow> unit promise \<times> App" where
  "App_testPaymentIntent env app =
     (if \<not> isSDKInitialized (world app)
      then (Resolved (), app\<lparr>results := (results app)\<lparr>payment := Some gate_result\<rparr>\<rparr>)
      else
        let a1 = addLog env ''Testing payment intent creation...'' Info app;
            a2 = a1\<lparr>results := (results a1)\<lparr>payment := None\<rparr>\<rparr>;
            r = testPaymentIntent env (config a2) (world a2)
        in settle env (\<lambda>v rs. rs\<lparr>payment := v\<rparr>)
             (\<lambda>result. ''Payment intent created: '' @ data_id_text (data result))
             ''Payment intent creation failed: '' (fst r) (a2\<lparr>world := snd r\<rparr>))"

definition App_testCardForm :: "Collaborators \<Rightarrow> App \<Rightarrow> unit promise \<times> App" where
  "App_testCardForm env app =
     (if \<not> isSDKInitialized (world app)
      then (Resolved (), app\<lparr>results := (results app)\<lparr>cardForm := Some gate_result\<rparr>\<rparr>)
      else
        let a1 = addLog env ''Testing card form mounting...'' Info app;
            a2 = a1\<lparr>results := (results a1)\<lparr>cardForm := None\<rparr>\<rparr>;
            r = testCardForm env (config a2) ''cardFormContainer'' (world a2)
        in settle env (\<lambda>v rs. rs\<lparr>cardForm := v\<rparr>)
             (\<lambda>result. ''Card form mounted successfully!'')
             ''Card form mounting failed: '' (fst r) (a2\<lparr>world := snd r\<rparr>))"

definition App_testTokenForm :: "Collaborators \<Rightarrow> App \<Rightarrow> unit promise \<times> App" where
  "App_testTokenForm env app =
     (if \<not> isSDKInitialized (world app)
      then (Resolved (), app\<lparr>results := (results app)\<lparr>tokenForm := Some gate_result\<rparr>\<rparr>)
      else
        let a1 = addLog env ''Testing token form mounting...'' Info app;
            a2 = a1\<lparr>results := (results a1)\<lparr>tokenForm := None\<rparr>\<rparr>;
            r = testTokenForm env (config a2) ''tokenFormContainer'' (world a2)
        in settle env (\<lambda>v rs. rs\<lparr>tokenForm := v\<rparr>)
             (\<lambda>result. ''Token form mounted successfully!'')
             ''Token form mounting failed: '' (fst r) (a2\<lparr>world := snd r\<rparr>))"

definition App_testCORS :: "Collaborators \<Rightarrow> App \<Rightarrow> unit promise \<times> App" where
  "App_testCORS env app =
     (let a1 = addLog env ''Testing CORS headers...'' Info app;
          a2 = a1\<lparr>results := (results a1)\<lparr>cors := None\<rparr>\<rparr>;
          r = testCORS env (config a2) (world a2)
      in settle env (\<lambda>v rs. rs\<lparr>cors := v\<rparr>)
           (\<lambda>result. ''CORS test passed - Cross-origin request successful!'')
           ''CORS test failed: '' (fst r) (a2\<lparr>world := snd r\<rparr>))"

text \<open>The two clear buttons.\<close>

definition clearCardForm :: "Collaborators \<Rightarrow> App \<Rightarrow> App" where
  "clearCardForm env app =
     addLog env ''Card form cleared'' Info
       (app\<lparr>world := clear_surface ''cardFormContainer'' (world app)\<rparr>)"

definition clearTokenForm :: "Collaborators \<Rightarrow> App \<Rightarrow> App" where
  "clearTokenForm env app =
     addLog env ''Token form cleared'' Info
       (app\<lparr>world := clear_surface ''tokenFormContainer'' (world app)\<rparr>)"

text \<open>A callback of a mounted widget reaches the tester only: the closures hold the
  tester and the container, not \<open>addLog\<close> or \<open>setResults\<close>.\<close>

definition widget_callback :: "string \<Rightarrow> Callback \<Rightarrow> App \<Rightarrow> App" where
  "widget_callback containerId cb app = app\<lparr>world := deliver containerId cb (world app)\<rparr>"

text \<open>What the user and the client can do to the page, one at a time.\<close>

datatype Action =
    Click_testSDKInitialization
  | Click_testPaymentIntent
  | Click_testCardForm
  | Click_clearCardForm
  | Click_testTokenForm
  | Click_clearTokenForm
  | Click_testCORS
  | Click_clearLogs
  | Edit_config TestConfig
  | Widget_callback string Callback

fun act :: "Collaborators \<Rightarrow> Action \<Rightarrow> App \<Rightarrow> App" where
  "act env Click_testSDKInitialization app = snd (testSDKInitialization env app)"
| "act env Click_testPaymentIntent app = snd (App_testPaymentIntent env app)"
| "act env Click_testCardForm app = snd (App_testCardForm env app)"
| "act env Click_clearCardForm app = clearCardForm env app"
| "act env Click_testTokenForm app = snd (App_testTokenForm env app)"
| "act env Click_clearTokenForm app = clearTokenForm env app"
| "act env Click_testCORS app = snd (App_testCORS env app)"
| "act env Click_clearLogs app = clearLogs app"
| "act env (Edit_config c) app = app\<lparr>config := c\<rparr>"
| "act env (Widget_callback containerId cb) app = widget_callback containerId cb app"

fun acts :: "Collaborators \<Rightarrow> Action list \<Rightarrow> App \<Rightarrow> App" where
  "acts env [] app = app"
| "acts env (a # as) app = acts env as (act env a app)"

section \<open>Notions used in the statements about the page\<close>

text \<open>The two entries that a probe handler appends: the first when it starts, the second
  when the promise of the tester has settled.\<close>

definition probe_log :: "Collaborators \<Rightarrow> App \<Rightarrow> string \<Rightarrow> string \<Rightarrow> LogType \<Rightarrow> LogEntry list" where
  "probe_log env app start_text end_text end_type =
     [\<lparr>timestamp = clock_now env (clock_reads app), log_message = start_text, log_type = Info\<rparr>,
      \<lparr>timestamp = clock_now env (Suc (clock_reads app)), log_message = end_text,
       log_type = end_type\<rparr>]"

text \<open>
  \<open>logged_as env app app' start success_text label p\<close>: from \<open>app\<close> to \<open>app'\<close> the log
  gained exactly the two entries of a probe whose tester promise is \<open>p\<close>. On success the
  second entry carries \<open>success_text\<close>; on failure it carries the envelope's message
  behind \<open>label\<close>; when the promise was rejected, the rejection's message behind \<open>label\<close>.
  For a promise that never settles, the log gained the first of the two entries only.
\<close>

fun logged_as ::
  "Collaborators \<Rightarrow> App \<Rightarrow> App \<Rightarrow> string \<Rightarrow> (TestResult \<Rightarrow> string) \<Rightarrow> string \<Rightarrow> TestResult promise \<Rightarrow> bool" where
  "logged_as env app app' start success_text label (Resolved r) =
     (logs app' = logs app @
        probe_log env app start
          (if success r then success_text r else label @ message r)
          (if success r then Success else Error))"
| "logged_as env app app' start success_text label (Rejected (Thrown m)) =
     (logs app' = logs app @ probe_log env app start (label @ template_text m) Error)"
| "logged_as env app app' start success_text label (Rejected ThrownNullish) = False"
| "logged_as env app app' start success_text label (Rejected (ThrownOdd None i)) = False"
| "logged_as env app app' start success_text label (Rejected (ThrownOdd (Some t) i)) =
     (logs app' = logs app @ probe_log env app start (label @ t) Error)"
| "logged_as env app app' start success_text label Pending =
     (logs app' = logs app @
        [\<lparr>timestamp = clock_now env (clock_reads app), log_message = start, log_type = Info\<rparr>])"


section \<open>Failures that carry a message\<close>

text \<open>
  A caught value of which \<open>${error.message}\<close> has a text: it is not \<open>null\<close> or
  \<open>undefined\<close>, and its message is a string, undefined, or another value that converts
  to text. And one on which the \<open>catch\<close> clause of \<open>testCORS\<close> can work: in addition,
  \<open>error.message.includes\<close> can be called, as on a string.
\<close>

fun message_renders :: "js_thrown \<Rightarrow> bool" where
  "message_renders e = (message_text e \<noteq> None)"

fun message_searchable :: "js_thrown \<Rightarrow> bool" where
  "message_searchable (Thrown (Some m)) = True"
| "message_searchable (ThrownOdd t i) = (t \<noteq> None \<and> i \<noteq> None)"
| "message_searchable _ = False"

text \<open>
  Every awaited call settles, whatever the client throws has a message with a text, and
  whatever the request fails with has a message that can be searched and has a text (as
  the TypeError and DOMException of \<open>fetch\<close> have).
\<close>

definition settles_with_message :: "Collaborators \<Rightarrow> bool" where
  "settles_with_message env =
     ((\<forall>h options e. sdk_new env h options = Some e \<longrightarrow> message_renders e)
      \<and> (\<forall>h client params. sdk_createPaymentIntent env h client params \<noteq> Unsettled)
      \<and> (\<forall>h client params e. sdk_createPaymentIntent env h client params = Failed e \<longrightarrow>
            message_renders e)
      \<and> (\<forall>h client params. sdk_mountCardForm env h client params \<noteq> Unsettled)
      \<and> (\<forall>h client params e. sdk_mountCardForm env h client params = Failed e \<longrightarrow>
            message_renders e)
      \<and> (\<forall>h client params. sdk_mountTokenForm env h client params \<noteq> Unsettled)
      \<and> (\<forall>h client params e. sdk_mountTokenForm env h client params = Failed e \<longrightarrow>
            message_renders e)
      \<and> (\<forall>h url headers. http_fetch env h url headers \<noteq> Unsettled)
      \<and> (\<forall>h url headers e. http_fetch env h url headers = Failed e \<longrightarrow> message_searchable e))"

fun resolves :: "'a promise \<Rightarrow> bool" where
  "resolves (Resolved v) = True"
| "resolves (Rejected error) = False"
| "resolves Pending = False"

section \<open>Concrete collaborators for the examples\<close>

text \<open>A client whose every call goes through, a request answered with status 200, and a
  clock that shows the number of the reading.\<close>

definition friendly :: Collaborators where
  "friendly =
     \<lparr>sdk_new = (\<lambda>h options. None),
      sdk_createPaymentIntent = (\<lambda>h client params.
         Fulfilled (Some \<lparr>intent_id = ''pi_1'', intent_json = ''{}''\<rparr>)),
      sdk_mountCardForm = (\<lambda>h client params. Fulfilled ()),
      sdk_mountTokenForm = (\<lambda>h client params. Fulfilled ()),
      http_fetch = (\<lambda>h url headers. Fulfilled \<lparr>ok = True, status = 200\<rparr>),
      engine_typeError = (\<lambda>p. ''Cannot read properties of undefined''),
      clock_now = string_of_nat\<rparr>"

text \<open>The same, but the request is answered with status 403.\<close>

definition forbidden :: Collaborators where
  "forbidden = friendly\<lparr>http_fetch := (\<lambda>h url headers. Fulfilled \<lparr>ok = False, status = 403\<rparr>)\<rparr>"

text \<open>The same, but the request fails before any response, with a text that names the
  policy in lower case, in upper case, or not at all.\<close>

definition fetch_fails :: "string \<Rightarrow> Collaborators" where
  "fetch_fails m = friendly\<lparr>http_fetch := (\<lambda>h url headers. Failed (Thrown (Some m)))\<rparr>"

text \<open>The same, but the constructor of the client throws \<open>undefined\<close>.\<close>

definition throws_undefined :: Collaborators where
  "throws_undefined = friendly\<lparr>sdk_new := (\<lambda>h options. Some ThrownNullish)\<rparr>"

text \<open>The same, but the constructor throws an object whose message is a Symbol.\<close>

definition throws_symbol_message :: Collaborators where
  "throws_symbol_message = friendly\<lparr>sdk_new := (\<lambda>h options. Some (ThrownOdd None None))\<rparr>"

text \<open>The same, but the request never settles.\<close>

definition never_answers :: Collaborators where
  "never_answers = friendly\<lparr>http_fetch := (\<lambda>h url headers. Unsettled)\<rparr>"

definition demo_config :: TestConfig where
  "demo_config = \<lparr>publishableKey = ''pk_1'', businessId = ''b1'', sdkToken = []\<rparr>"

definition no_key_config :: TestConfig where
  "no_key_config = \<lparr>publishableKey = [], businessId = ''b1'', sdkToken = []\<rparr>"

definition fresh_world :: World where
  "fresh_world = world initial_App"

section \<open>Facts about strings\<close>

lemma str_includes_sublist: "str_includes h n \<longleftrightarrow> sublist n h"
  by (induction h) (auto simp: sublist_Cons_right)

lemma str_includes_append_right: "str_includes (a @ b) b"
  by (simp add: str_includes_sublist)

lemma str_includes_middle: "str_includes (a @ b @ c) b"
  by (simp add: str_includes_sublist)

section \<open>The gate of the dependent probes\<close>

text \<open>
  C1. For each of the three dependent probes (\<open>testPaymentIntent\<close>, \<open>testCardForm\<close>,
  \<open>testTokenForm\<close>): when \<open>isSDKInitialized()\<close> is false, the probe resolves with the
  envelope \<open>{success: false, message: "Please initialize the SDK first"}\<close> and leaves the
  whole world as it was, so the trace of calls to the underlying client gains nothing.
\<close>

theorem gate_blocks_dependent_probes:
  assumes "\<not> isSDKInitialized w"
  shows "testPaymentIntent env cfg w = (Resolved gate_result, w)
       \<and> testCardForm env cfg containerId w = (Resolved gate_result, w)
       \<and> testTokenForm env cfg containerId w = (Resolved gate_result, w)
       \<and> gate_result = \<lparr>success = False, message = ''Please initialize the SDK first'', data = None\<rparr>"
  using assms
  by (simp add: testPaymentIntent_def testCardForm_def testTokenForm_def gate_closed_def
      isSDKInitialized_def gate_result_def)

theorem gate_blocks_dependent_probes_witness:
  "\<not> isSDKInitialized fresh_world
   \<and> testPaymentIntent friendly demo_config fresh_world = (Resolved gate_result, fresh_world)
   \<and> calls (snd (testCardForm friendly demo_config ''cardFormContainer'' fresh_world)) = []
   \<and> message gate_result = ''Please initialize the SDK first''"
proof -
  have h: "\<not> isSDKInitialized fresh_world"
    by (simp add: isSDKInitialized_def fresh_world_def initial_App_def new_AxraPayTester_def)
  have c: "calls fresh_world = []"
    by (simp add: fresh_world_def initial_App_def)
  from gate_blocks_dependent_probes [OF h, of friendly demo_config "''cardFormContainer''"] h c
  show ?thesis by (simp add: gate_result_def)
qed

section \<open>Initialisation\<close>

text \<open>
  C2. For every configuration whose \<open>publishableKey\<close> or \<open>businessId\<close> is empty,
  \<open>initializeSDK\<close> resolves with a \<open>success: false\<close> envelope whose message mentions
  the publishable key; the constructor of the underlying client is not called (the trace
  of calls and the client handle are unchanged), and \<open>isSDKInitialized()\<close> is false
  afterwards.
\<close>

theorem missing_credentials_fail_initializeSDK:
  assumes "publishableKey cfg = [] \<or> businessId cfg = []"
  shows "fst (initializeSDK env cfg w) =
           Resolved \<lparr>success = False,
                     message = ''SDK initialization failed: Please provide both publishable key and business ID'',
                     data = Some (ErrorData (Some ''Please provide both publishable key and business ID''))\<rparr>
       \<and> str_includes ''SDK initialization failed: Please provide both publishable key and business ID''
            ''publishable key''
       \<and> calls (snd (initializeSDK env cfg w)) = calls w
       \<and> axraPay (tester (snd (initializeSDK env cfg w))) = axraPay (tester w)
       \<and> \<not> isSDKInitialized (snd (initializeSDK env cfg w))"
proof -
  have "str_includes (''SDK initialization failed: Please provide both '' @ ''publishable key'' @ '' and business ID'')
            ''publishable key''"
    by (rule str_includes_middle)
  then show ?thesis using assms
    by (simp add: initializeSDK_def initializeSDK_catch_def isSDKInitialized_def)
qed

theorem missing_credentials_fail_initializeSDK_witness:
  "publishableKey no_key_config = []
   \<and> calls (snd (initializeSDK friendly no_key_config fresh_world)) = []
   \<and> \<not> isSDKInitialized (snd (initializeSDK friendly no_key_config fresh_world))"
proof -
  have h: "publishableKey no_key_config = [] \<or> businessId no_key_config = []"
    by (simp add: no_key_config_def)
  have c: "calls fresh_world = []"
    by (simp add: fresh_world_def initial_App_def)
  from missing_credentials_fail_initializeSDK [OF h, of friendly fresh_world] c
  show ?thesis by (simp add: no_key_config_def)
qed

lemma caught_result_not_succeeded: "\<not> succeeded (caught_result env label e)"
  by (cases "(env, label, e)" rule: caught_result.cases) simp_all

lemma initializeSDK_ready_iff:
  "isSDKInitialized (snd (initializeSDK env cfg w)) = succeeded (fst (initializeSDK env cfg w))"
  by (simp add: initializeSDK_def initializeSDK_catch_def isSDKInitialized_def Let_def
      record_call_def caught_result_not_succeeded split: option.splits)

lemma tester_testPaymentIntent: "tester (snd (testPaymentIntent env cfg w)) = tester w"
  by (simp add: testPaymentIntent_def testPaymentIntent_try_def Let_def record_call_def
      split: option.splits awaited.splits)

lemma tester_testCardForm: "tester (snd (testCardForm env cfg cid w)) = tester w"
  by (simp add: testCardForm_def testCardForm_try_def testCardForm_catch_def Let_def record_call_def
      split: option.splits awaited.splits)

lemma tester_testTokenForm: "tester (snd (testTokenForm env cfg cid w)) = tester w"
  by (simp add: testTokenForm_def testTokenForm_try_def testTokenForm_catch_def Let_def record_call_def
      split: option.splits awaited.splits)

lemma tester_testCORS: "tester (snd (testCORS env cfg w)) = tester w"
  by (simp add: testCORS_def Let_def record_call_def split: awaited.splits)

lemma tester_cardForm_callback: "tester (cardForm_callback cid msg ty p w) = tester w"
  by (simp add: cardForm_callback_def split: option.splits)

lemma tester_tokenForm_callback: "tester (tokenForm_callback cid msg ty p w) = tester w"
  by (simp add: tokenForm_callback_def split: option.splits)

lemma tester_deliver: "tester (deliver cid cb w) = tester w"
  by (cases cb)
     (simp_all add: cardForm_onSuccess_def cardForm_onError_def cardForm_onCancel_def
        tokenForm_onSuccess_def tokenForm_onError_def tokenForm_onCancel_def
        tester_cardForm_callback tester_tokenForm_callback)

lemma tester_clear_surface: "tester (clear_surface cid w) = tester w"
  by (simp add: clear_surface_def split: option.splits)

lemma tester_perform:
  "\<not> is_initializeSDK e \<Longrightarrow> tester (snd (perform env e w)) = tester w"
  by (cases e)
     (simp_all add: tester_testPaymentIntent tester_testCardForm tester_testTokenForm
        tester_testCORS tester_deliver tester_clear_surface)

lemma ready_perform:
  assumes "isSDKInitialized w"
    and "is_initializeSDK e \<longrightarrow> (case fst (perform env e w) of Some p \<Rightarrow> succeeded p | None \<Rightarrow> False)"
  shows "isSDKInitialized (snd (perform env e w))"
proof (cases "is_initializeSDK e")
  case True
  then obtain c where e: "e = Call_initializeSDK c" by (cases e) simp_all
  with assms(2) show ?thesis by (simp add: initializeSDK_ready_iff)
next
  case False
  then show ?thesis using assms(1) tester_perform [OF False, of env w]
    by (simp add: isSDKInitialized_def)
qed

lemma ready_run:
  "isSDKInitialized w \<Longrightarrow> no_failed_initializeSDK env es w \<Longrightarrow> isSDKInitialized (run env es w)"
proof (induction es arbitrary: w)
  case Nil
  then show ?case by simp
next
  case (Cons e es)
  from Cons.prems have "isSDKInitialized (snd (perform env e w))"
    by (intro ready_perform) (auto split: if_splits)
  moreover from Cons.prems have "no_failed_initializeSDK env es (snd (perform env e w))"
    by simp
  ultimately show ?case using Cons.IH by simp
qed

text \<open>
  C10. After any call of \<open>initializeSDK\<close> that does not resolve with \<open>success: true\<close>
  (in particular one that returns \<open>success: false\<close>), \<open>isSDKInitialized()\<close> is false,
  whatever it was before the call, and the three dependent probes are stopped at the gate
  again.
\<close>

theorem failed_initializeSDK_closes_gate:
  assumes "\<not> succeeded (fst (initializeSDK env cfg w))"
  shows "\<not> isSDKInitialized (snd (initializeSDK env cfg w))
       \<and> testPaymentIntent env cfg' (snd (initializeSDK env cfg w)) =
           (Resolved gate_result, snd (initializeSDK env cfg w))
       \<and> testCardForm env cfg' cid (snd (initializeSDK env cfg w)) =
           (Resolved gate_result, snd (initializeSDK env cfg w))
       \<and> testTokenForm env cfg' cid (snd (initializeSDK env cfg w)) =
           (Resolved gate_result, snd (initializeSDK env cfg w))"
  using assms
  by (simp add: initializeSDK_ready_iff [symmetric] testPaymentIntent_def testCardForm_def
      testTokenForm_def gate_closed_def isSDKInitialized_def)

lemma no_key_fails:
  "fst (initializeSDK env no_key_config w) =
     Resolved \<lparr>success = False,
       message = ''SDK initialization failed: Please provide both publishable key and business ID'',
       data = Some (ErrorData (Some ''Please provide both publishable key and business ID''))\<rparr>"
  by (simp add: initializeSDK_def initializeSDK_catch_def no_key_config_def)

lemma friendly_init_succeeds:
  "succeeded (fst (initializeSDK friendly demo_config fresh_world))"
  by (simp add: initializeSDK_def friendly_def demo_config_def Let_def)

theorem failed_initializeSDK_closes_gate_witness:
  "isSDKInitialized (snd (initializeSDK friendly demo_config fresh_world))
   \<and> fst (initializeSDK friendly no_key_config (snd (initializeSDK friendly demo_config fresh_world))) =
       Resolved \<lparr>success = False,
         message = ''SDK initialization failed: Please provide both publishable key and business ID'',
         data = Some (ErrorData (Some ''Please provide both publishable key and business ID''))\<rparr>
   \<and> \<not> isSDKInitialized
         (snd (initializeSDK friendly no_key_config (snd (initializeSDK friendly demo_config fresh_world))))"
proof -
  let ?w1 = "snd (initializeSDK friendly demo_config fresh_world)"
  have r: "isSDKInitialized ?w1"
    by (simp add: initializeSDK_ready_iff friendly_init_succeeds)
  have f: "fst (initializeSDK friendly no_key_config ?w1) =
       Resolved \<lparr>success = False,
         message = ''SDK initialization failed: Please provide both publishable key and business ID'',
         data = Some (ErrorData (Some ''Please provide both publishable key and business ID''))\<rparr>"
    by (rule no_key_fails)
  then have h: "\<not> succeeded (fst (initializeSDK friendly no_key_config ?w1))" by simp
  from failed_initializeSDK_closes_gate [OF h] r f show ?thesis by simp
qed

text \<open>
  C6, as amended. After a call of \<open>initializeSDK\<close> that returns \<open>success: true\<close>,
  \<open>isSDKInitialized()\<close> is true, and it is still true after any sequence of method
  calls, widget callbacks and surface clearings in which no call of \<open>initializeSDK\<close>
  fails. The class has no \<open>reset\<close> method.
\<close>

theorem ready_until_failed_initializeSDK:
  assumes "succeeded (fst (initializeSDK env cfg w))"
  shows "isSDKInitialized (snd (initializeSDK env cfg w))
       \<and> (\<forall>es. no_failed_initializeSDK env es (snd (initializeSDK env cfg w)) \<longrightarrow>
               isSDKInitialized (run env es (snd (initializeSDK env cfg w))))"
  using assms by (simp add: initializeSDK_ready_iff ready_run)

text \<open>
  C6 as stated fails: readiness does not last until a \<open>reset()\<close>. A second call of
  \<open>initializeSDK\<close>, with an empty publishable key, makes \<open>isSDKInitialized()\<close> false.
\<close>

theorem ready_lost_without_reset:
  "succeeded (fst (initializeSDK friendly demo_config fresh_world))
   \<and> \<not> isSDKInitialized
        (run friendly [Call_initializeSDK no_key_config]
           (snd (initializeSDK friendly demo_config fresh_world)))"
  by (simp add: friendly_init_succeeds initializeSDK_ready_iff no_key_fails)

theorem ready_until_failed_initializeSDK_witness:
  "succeeded (fst (initializeSDK friendly demo_config fresh_world))
   \<and> isSDKInitialized
       (run friendly
          [Call_testCORS demo_config, Call_testCardForm demo_config ''cardFormContainer'',
           Callback_fires ''cardFormContainer'' CardCancel, Surface_cleared ''cardFormContainer'',
           Call_initializeSDK demo_config, Call_testPaymentIntent demo_config]
          (snd (initializeSDK friendly demo_config fresh_world)))"
proof -
  let ?w1 = "snd (initializeSDK friendly demo_config fresh_world)"
  let ?es = "[Call_testCORS demo_config, Call_testCardForm demo_config ''cardFormContainer'',
           Callback_fires ''cardFormContainer'' CardCancel, Surface_cleared ''cardFormContainer'',
           Call_initializeSDK demo_config, Call_testPaymentIntent demo_config]"
  have i: "\<And>w. succeeded (fst (initializeSDK friendly demo_config w))"
    by (simp add: initializeSDK_def friendly_def demo_config_def Let_def)
  have n: "no_failed_initializeSDK friendly ?es ?w1"
    by (simp add: i)
  from ready_until_failed_initializeSDK [OF friendly_init_succeeds] n friendly_init_succeeds
  show ?thesis by blast
qed

section \<open>The CORS probe\<close>

lemma string_of_nat_403: "string_of_nat 403 = ''403''"
  by (simp add: string_of_nat.simps)

text \<open>
  C7. When the request of the CORS probe is answered with an HTTP response: with an ok
  status the probe resolves with \<open>success: true\<close>; with a non-ok status it resolves with
  \<open>success: false\<close> and the decimal text of the status occurs in the message (for 403
  the message is \<open>CORS test failed - HTTP error: 403\<close>).
\<close>

theorem testCORS_http_status:
  assumes "http_fetch env (calls w) (cors_url cfg) (cors_headers cfg) = Fulfilled response"
  shows "(ok response \<longrightarrow>
            (\<exists>r. fst (testCORS env cfg w) = Resolved r \<and> success r))
       \<and> (\<not> ok response \<longrightarrow>
            (\<exists>r. fst (testCORS env cfg w) = Resolved r \<and> \<not> success r
               \<and> message r = ''CORS test failed - HTTP error: '' @ string_of_nat (status response)
               \<and> str_includes (message r) (string_of_nat (status response))))"
proof -
  have r: "fst (testCORS env cfg w) = Resolved (testCORS_response response)"
    using assms by (simp add: testCORS_def Let_def)
  show ?thesis
  proof (cases "ok response")
    case True
    then show ?thesis by (simp add: r testCORS_response_def)
  next
    case False
    have m: "message (testCORS_response response) =
               ''CORS test failed - HTTP error: '' @ string_of_nat (status response)"
      using False by (simp add: testCORS_response_def)
    have i: "str_includes (message (testCORS_response response)) (string_of_nat (status response))"
      unfolding m by (rule str_includes_append_right)
    have f: "\<not> success (testCORS_response response)"
      using False by (simp add: testCORS_response_def)
    from False r m i f show ?thesis by blast
  qed
qed

theorem testCORS_http_status_witness:
  "http_fetch forbidden (calls fresh_world) (cors_url demo_config) (cors_headers demo_config) =
     Fulfilled \<lparr>ok = False, status = 403\<rparr>
   \<and> fst (testCORS forbidden demo_config fresh_world) =
       Resolved \<lparr>success = False, message = ''CORS test failed - HTTP error: 403'',
                 data = Some (StatusData 403)\<rparr>
   \<and> str_includes ''CORS test failed - HTTP error: 403'' ''403''"
proof -
  have h: "http_fetch forbidden (calls fresh_world) (cors_url demo_config) (cors_headers demo_config) =
     Fulfilled \<lparr>ok = False, status = 403\<rparr>"
    by (simp add: forbidden_def)
  have e: "fst (testCORS forbidden demo_config fresh_world) =
       Resolved \<lparr>success = False, message = ''CORS test failed - HTTP error: 403'',
                 data = Some (StatusData 403)\<rparr>"
    by (simp add: testCORS_def Let_def h testCORS_response_def string_of_nat_403)
  from testCORS_http_status [OF h] e show ?thesis
    by (simp add: h string_of_nat_403)
qed

lemma cors_messages_differ:
  "''CORS test failed - CORS error: '' @ m1 \<noteq> ''CORS test failed: '' @ m2"
  by simp

text \<open>
  C5, as amended. When the request fails before any response with a failure text \<open>m\<close>:
  if \<open>m\<close> contains \<open>CORS\<close> or \<open>cross-origin\<close> exactly as written (the comparison of
  \<open>String.prototype.includes\<close> distinguishes upper and lower case), the envelope is the
  CORS-policy failure \<open>CORS test failed - CORS error: m\<close>; otherwise it is the generic
  failure \<open>CORS test failed: m\<close>. Both have \<open>success: false\<close>, and no message of the
  first kind equals a message of the second kind.
\<close>

theorem testCORS_failure_classes:
  assumes "http_fetch env (calls w) (cors_url cfg) (cors_headers cfg) = Failed (Thrown (Some m))"
  shows "(str_includes m ''CORS'' \<or> str_includes m ''cross-origin'' \<longrightarrow>
            fst (testCORS env cfg w) =
              Resolved \<lparr>success = False, message = ''CORS test failed - CORS error: '' @ m,
                        data = Some (ErrorData (Some m))\<rparr>)
       \<and> (\<not> (str_includes m ''CORS'' \<or> str_includes m ''cross-origin'') \<longrightarrow>
            fst (testCORS env cfg w) =
              Resolved \<lparr>success = False, message = ''CORS test failed: '' @ m,
                        data = Some (ErrorData (Some m))\<rparr>)
       \<and> (\<forall>m1 m2. ''CORS test failed - CORS error: '' @ m1 \<noteq> ''CORS test failed: '' @ m2)"
  using assms
  by (simp add: testCORS_def Let_def)

theorem testCORS_failure_classes_witness:
  "fst (testCORS (fetch_fails ''blocked by CORS policy'') demo_config fresh_world) =
     Resolved \<lparr>success = False, message = ''CORS test failed - CORS error: blocked by CORS policy'',
               data = Some (ErrorData (Some ''blocked by CORS policy''))\<rparr>
   \<and> fst (testCORS (fetch_fails ''Failed to fetch'') demo_config fresh_world) =
     Resolved \<lparr>success = False, message = ''CORS test failed: Failed to fetch'',
               data = Some (ErrorData (Some ''Failed to fetch''))\<rparr>"
proof -
  have h: "\<And>m. http_fetch (fetch_fails m) (calls fresh_world) (cors_url demo_config)
             (cors_headers demo_config) = Failed (Thrown (Some m))"
    by (simp add: fetch_fails_def)
  have a: "str_includes ''blocked by CORS policy'' ''CORS''" by simp
  have b: "\<not> (str_includes ''Failed to fetch'' ''CORS'' \<or> str_includes ''Failed to fetch'' ''cross-origin'')"
    by simp
  from testCORS_failure_classes [OF h [of "''blocked by CORS policy''"]]
       testCORS_failure_classes [OF h [of "''Failed to fetch''"]] a b
  show ?thesis by simp
qed

text \<open>
  C5 as stated fails: the comparison is not case-insensitive. The failure text
  \<open>blocked by cors policy\<close> contains \<open>CORS\<close> when case is ignored, and is classified as
  a generic failure.
\<close>

theorem testCORS_lower_case_is_generic:
  "includes_ignoring_case ''blocked by cors policy'' ''CORS''
   \<and> fst (testCORS (fetch_fails ''blocked by cors policy'') demo_config fresh_world) =
       Resolved \<lparr>success = False, message = ''CORS test failed: blocked by cors policy'',
                 data = Some (ErrorData (Some ''blocked by cors policy''))\<rparr>"
  by (simp add: includes_ignoring_case_def toLowerCase_def testCORS_def Let_def fetch_fails_def)

section \<open>Probes resolve\<close>

lemma caught_result_resolves_iff: "resolves (caught_result env label e) = message_renders e"
  by (cases "(env, label, e)" rule: caught_result.cases) simp_all

lemma testCORS_catch_resolves_iff: "resolves (testCORS_catch env e) = message_searchable e"
  by (cases "(env, e)" rule: testCORS_catch.cases) simp_all

lemma testCORS_catch_not_succeeded: "\<not> succeeded (testCORS_catch env e)"
  by (cases "(env, e)" rule: testCORS_catch.cases) simp_all

lemma initializeSDK_resolves:
  "settles_with_message env \<Longrightarrow> resolves (fst (initializeSDK env cfg w))"
  by (auto simp: initializeSDK_def initializeSDK_catch_def Let_def settles_with_message_def
      caught_result_resolves_iff split: option.splits)

lemma testPaymentIntent_resolves:
  "settles_with_message env \<Longrightarrow> resolves (fst (testPaymentIntent env cfg w))"
  by (auto simp: testPaymentIntent_def testPaymentIntent_try_def Let_def settles_with_message_def
      caught_result_resolves_iff split: option.splits awaited.splits)

lemma testCardForm_resolves:
  "settles_with_message env \<Longrightarrow> resolves (fst (testCardForm env cfg cid w))"
  by (auto simp: testCardForm_def testCardForm_try_def testCardForm_catch_def Let_def
      settles_with_message_def caught_result_resolves_iff split: option.splits awaited.splits)

lemma testTokenForm_resolves:
  "settles_with_message env \<Longrightarrow> resolves (fst (testTokenForm env cfg cid w))"
  by (auto simp: testTokenForm_def testTokenForm_try_def testTokenForm_catch_def Let_def
      settles_with_message_def caught_result_resolves_iff split: option.splits awaited.splits)

lemma testCORS_resolves:
  "settles_with_message env \<Longrightarrow> resolves (fst (testCORS env cfg w))"
  by (auto simp: testCORS_def Let_def settles_with_message_def testCORS_catch_resolves_iff
      split: awaited.splits)

lemma initializeSDK_recovers:
  "sdk_new env (calls w) (sdk_options cfg) = Some e \<Longrightarrow> \<not> succeeded (fst (initializeSDK env cfg w))"
  by (simp add: initializeSDK_def initializeSDK_catch_def Let_def caught_result_not_succeeded)

lemma testPaymentIntent_recovers:
  "axraPay (tester w) = Some client \<Longrightarrow>
   sdk_createPaymentIntent env (calls w) client (paymentIntent_params cfg) = Failed e \<Longrightarrow>
   \<not> succeeded (fst (testPaymentIntent env cfg w))"
  by (simp add: testPaymentIntent_def testPaymentIntent_try_def Let_def caught_result_not_succeeded
      gate_result_def)

lemma testCardForm_recovers:
  "axraPay (tester w) = Some client \<Longrightarrow>
   sdk_mountCardForm env (calls w) client (cardForm_params cfg cid) = Failed e \<Longrightarrow>
   \<not> succeeded (fst (testCardForm env cfg cid w))"
  by (simp add: testCardForm_def testCardForm_try_def testCardForm_catch_def Let_def
      caught_result_not_succeeded gate_result_def split: option.splits)

lemma testTokenForm_recovers:
  "axraPay (tester w) = Some client \<Longrightarrow>
   sdk_mountTokenForm env (calls w) client (tokenForm_params cfg cid) = Failed e \<Longrightarrow>
   \<not> succeeded (fst (testTokenForm env cfg cid w))"
  by (simp add: testTokenForm_def testTokenForm_try_def testTokenForm_catch_def Let_def
      caught_result_not_succeeded gate_result_def split: option.splits)

lemma testCORS_recovers:
  "http_fetch env (calls w) (cors_url cfg) (cors_headers cfg) = Failed e \<Longrightarrow>
   \<not> succeeded (fst (testCORS env cfg w))"
  by (simp add: testCORS_def Let_def testCORS_catch_not_succeeded)

text \<open>
  C9, as amended. When every awaited call of the underlying client and of the request
  settles, every value that the client throws or rejects with has a message that can be
  read and has a text (it is not \<open>null\<close> or \<open>undefined\<close>, and its message is not, say, a
  Symbol), and every failure of the request has a message that can be searched with
  \<open>includes\<close> and has a text (as a string has), each of the five probe operations
  resolves with an envelope, for every configuration and every state; and whenever the
  collaborator called by a probe fails, that envelope does not have \<open>success: true\<close>.
\<close>

theorem probes_resolve_when_calls_settle_with_message:
  assumes "settles_with_message env"
  shows "resolves (fst (initializeSDK env cfg w))
       \<and> resolves (fst (testPaymentIntent env cfg w))
       \<and> resolves (fst (testCardForm env cfg cid w))
       \<and> resolves (fst (testTokenForm env cfg cid w))
       \<and> resolves (fst (testCORS env cfg w))
       \<and> (\<forall>e. sdk_new env (calls w) (sdk_options cfg) = Some e \<longrightarrow>
              \<not> succeeded (fst (initializeSDK env cfg w)))
       \<and> (\<forall>client e. axraPay (tester w) = Some client \<and>
              sdk_createPaymentIntent env (calls w) client (paymentIntent_params cfg) = Failed e \<longrightarrow>
              \<not> succeeded (fst (testPaymentIntent env cfg w)))
       \<and> (\<forall>client e. axraPay (tester w) = Some client \<and>
              sdk_mountCardForm env (calls w) client (cardForm_params cfg cid) = Failed e \<longrightarrow>
              \<not> succeeded (fst (testCardForm env cfg cid w)))
       \<and> (\<forall>client e. axraPay (tester w) = Some client \<and>
              sdk_mountTokenForm env (calls w) client (tokenForm_params cfg cid) = Failed e \<longrightarrow>
              \<not> succeeded (fst (testTokenForm env cfg cid w)))
       \<and> (\<forall>e. http_fetch env (calls w) (cors_url cfg) (cors_headers cfg) = Failed e \<longrightarrow>
              \<not> succeeded (fst (testCORS env cfg w)))"
  using assms
  by (auto intro: initializeSDK_resolves testPaymentIntent_resolves testCardForm_resolves
      testTokenForm_resolves testCORS_resolves
      dest: initializeSDK_recovers testPaymentIntent_recovers testCardForm_recovers
      testTokenForm_recovers testCORS_recovers)

lemma fetch_fails_settles_with_message: "settles_with_message (fetch_fails m)"
  by (simp add: settles_with_message_def fetch_fails_def friendly_def)

theorem probes_resolve_when_calls_settle_with_message_witness:
  "settles_with_message (fetch_fails ''Failed to fetch'')
   \<and> resolves (fst (testCORS (fetch_fails ''Failed to fetch'') demo_config fresh_world))
   \<and> \<not> succeeded (fst (testCORS (fetch_fails ''Failed to fetch'') demo_config fresh_world))
   \<and> resolves (fst (initializeSDK (fetch_fails ''Failed to fetch'') no_key_config fresh_world))"
proof -
  have h: "settles_with_message (fetch_fails ''Failed to fetch'')"
    by (rule fetch_fails_settles_with_message)
  have f: "http_fetch (fetch_fails ''Failed to fetch'') (calls fresh_world) (cors_url demo_config)
             (cors_headers demo_config) = Failed (Thrown (Some ''Failed to fetch''))"
    by (simp add: fetch_fails_def)
  from probes_resolve_when_calls_settle_with_message [OF h, of demo_config fresh_world]
       probes_resolve_when_calls_settle_with_message [OF h, of no_key_config fresh_world]
       h f
  show ?thesis by blast
qed

text \<open>
  C9 as stated fails: not every behaviour of the client is recovered. When the
  constructor throws \<open>undefined\<close>, the \<open>catch\<close> clause of \<open>initializeSDK\<close> reads
  \<open>error.message\<close>, which raises a TypeError, and the promise is rejected.
\<close>

theorem initializeSDK_rejects_on_thrown_undefined:
  "fst (initializeSDK throws_undefined demo_config fresh_world) =
     Rejected (Thrown (Some ''Cannot read properties of undefined''))
   \<and> \<not> resolves (fst (initializeSDK throws_undefined demo_config fresh_world))"
  by (simp add: initializeSDK_def initializeSDK_catch_def Let_def throws_undefined_def friendly_def
      demo_config_def)

text \<open>
  The two conditions on the messages and on settling are needed as well. An object whose
  message is a Symbol is not \<open>null\<close> or \<open>undefined\<close>, yet the template literal of the
  \<open>catch\<close> clause raises a TypeError for it and the promise is rejected; and a request
  that never settles leaves the promise of \<open>testCORS\<close> pending.
\<close>

lemma initializeSDK_rejects_on_symbol_message:
  "\<not> resolves (fst (initializeSDK throws_symbol_message demo_config fresh_world))
   \<and> \<not> settles_with_message throws_symbol_message"
proof -
  have "sdk_new throws_symbol_message [] (sdk_options demo_config) = Some (ThrownOdd None None)"
    by (simp add: throws_symbol_message_def)
  then have "\<not> settles_with_message throws_symbol_message"
    unfolding settles_with_message_def by (metis message_renders.simps message_text.simps(3))
  then show ?thesis
    by (simp add: initializeSDK_def initializeSDK_catch_def Let_def throws_symbol_message_def
        friendly_def demo_config_def)
qed

lemma testCORS_pending_when_request_never_settles:
  "fst (testCORS never_answers demo_config fresh_world) = Pending
   \<and> \<not> settles_with_message never_answers"
proof -
  have "http_fetch never_answers [] [] [] = Unsettled"
    by (simp add: never_answers_def)
  then have "\<not> settles_with_message never_answers"
    unfolding settles_with_message_def by blast
  then show ?thesis
    by (simp add: testCORS_def Let_def never_answers_def)
qed

section \<open>What the operations do to the document\<close>















lemma world_addLog: "world (addLog env msg ty app) = world app"
  by (simp add: addLog_def)

lemma world_settle: "world (snd (settle env slot st label p app)) = world app"
  by (cases "(env, slot, st, label, p, app)" rule: settle.cases) (simp_all add: Let_def world_addLog)

lemma world_testSDKInitialization:
  "world (snd (testSDKInitialization env app)) = snd (initializeSDK env (config app) (world app))"
  by (simp add: testSDKInitialization_def Let_def world_settle addLog_def)


lemma world_App_testCardForm:
  "world (snd (App_testCardForm env app)) =
     (if isSDKInitialized (world app)
      then snd (testCardForm env (config app) ''cardFormContainer'' (world app))
      else world app)"
  by (simp add: App_testCardForm_def Let_def world_settle addLog_def)







section \<open>The log of the page\<close>

text \<open>A probe whose promise is rejected is rejected with a TypeError of the engine, which
  has a message text.\<close>

lemma caught_result_rejection:
  "caught_result env label e = Rejected x \<Longrightarrow> \<exists>m. x = Thrown (Some m)"
  by (cases "(env, label, e)" rule: caught_result.cases) auto

lemma testCORS_catch_rejection:
  "testCORS_catch env e = Rejected x \<Longrightarrow> \<exists>m. x = Thrown (Some m)"
  by (cases "(env, e)" rule: testCORS_catch.cases) (auto split: if_splits)

lemma initializeSDK_rejection:
  "fst (initializeSDK env cfg w) = Rejected x \<Longrightarrow> \<exists>m. x = Thrown (Some m)"
  by (auto simp: initializeSDK_def initializeSDK_catch_def Let_def
      dest: caught_result_rejection split: option.splits if_splits)

lemma testPaymentIntent_rejection:
  "fst (testPaymentIntent env cfg w) = Rejected x \<Longrightarrow> \<exists>m. x = Thrown (Some m)"
  by (auto simp: testPaymentIntent_def testPaymentIntent_try_def Let_def
      dest: caught_result_rejection split: option.splits awaited.splits if_splits)

lemma testCardForm_rejection:
  "fst (testCardForm env cfg cid w) = Rejected x \<Longrightarrow> \<exists>m. x = Thrown (Some m)"
  by (auto simp: testCardForm_def testCardForm_try_def testCardForm_catch_def Let_def
      dest: caught_result_rejection split: option.splits awaited.splits if_splits)

lemma testTokenForm_rejection:
  "fst (testTokenForm env cfg cid w) = Rejected x \<Longrightarrow> \<exists>m. x = Thrown (Some m)"
  by (auto simp: testTokenForm_def testTokenForm_try_def testTokenForm_catch_def Let_def
      dest: caught_result_rejection split: option.splits awaited.splits if_splits)

lemma testCORS_rejection:
  "fst (testCORS env cfg w) = Rejected x \<Longrightarrow> \<exists>m. x = Thrown (Some m)"
  by (auto simp: testCORS_def Let_def dest: testCORS_catch_rejection split: awaited.splits)

lemma settle_logged_as:
  assumes "\<And>x. p = Rejected x \<Longrightarrow> \<exists>m. x = Thrown (Some m)"
    and "logs a2 = logs app @
           [\<lparr>timestamp = clock_now env (clock_reads app), log_message = start, log_type = Info\<rparr>]"
    and "clock_reads a2 = Suc (clock_reads app)"
  shows "logged_as env app (snd (settle env slot st label p a2)) start st label p"
proof (cases p)
  case (Resolved r)
  then show ?thesis using assms(2,3)
    by (simp add: Let_def addLog_def probe_log_def)
next
  case (Rejected e)
  with assms(1) obtain m where "e = Thrown (Some m)" by blast
  with Rejected show ?thesis using assms(2,3)
    by (simp add: Let_def addLog_def probe_log_def)
next
  case Pending
  then show ?thesis using assms(2) by simp
qed

lemma testSDKInitialization_logged:
  "logged_as env app (snd (testSDKInitialization env app))
     ''Starting SDK initialization test...'' (\<lambda>r. ''SDK initialized successfully!'')
     ''SDK initialization failed: '' (fst (initializeSDK env (config app) (world app)))"
  unfolding testSDKInitialization_def Let_def
  using settle_logged_as [OF initializeSDK_rejection, where app = app and env = env]
  by (simp add: addLog_def)

lemma App_testCORS_logged:
  "logged_as env app (snd (App_testCORS env app))
     ''Testing CORS headers...'' (\<lambda>r. ''CORS test passed - Cross-origin request successful!'')
     ''CORS test failed: '' (fst (testCORS env (config app) (world app)))"
  unfolding App_testCORS_def Let_def
  using settle_logged_as [OF testCORS_rejection, where app = app and env = env]
  by (simp add: addLog_def)

lemma App_testPaymentIntent_logged:
  "isSDKInitialized (world app) \<Longrightarrow>
   logged_as env app (snd (App_testPaymentIntent env app))
     ''Testing payment intent creation...''
     (\<lambda>r. ''Payment intent created: '' @ data_id_text (data r))
     ''Payment intent creation failed: '' (fst (testPaymentIntent env (config app) (world app)))"
  unfolding App_testPaymentIntent_def Let_def
  using settle_logged_as [OF testPaymentIntent_rejection, where app = app and env = env]
  by (simp add: addLog_def)

lemma App_testCardForm_logged:
  "isSDKInitialized (world app) \<Longrightarrow>
   logged_as env app (snd (App_testCardForm env app))
     ''Testing card form mounting...'' (\<lambda>r. ''Card form mounted successfully!'')
     ''Card form mounting failed: ''
     (fst (testCardForm env (config app) ''cardFormContainer'' (world app)))"
  unfolding App_testCardForm_def Let_def
  using settle_logged_as [OF testCardForm_rejection, where app = app and env = env]
  by (simp add: addLog_def)

lemma App_testTokenForm_logged:
  "isSDKInitialized (world app) \<Longrightarrow>
   logged_as env app (snd (App_testTokenForm env app))
     ''Testing token form mounting...'' (\<lambda>r. ''Token form mounted successfully!'')
     ''Token form mounting failed: ''
     (fst (testTokenForm env (config app) ''tokenFormContainer'' (world app)))"
  unfolding App_testTokenForm_def Let_def
  using settle_logged_as [OF testTokenForm_rejection, where app = app and env = env]
  by (simp add: addLog_def)

lemma gated_handlers_silent:
  "\<not> isSDKInitialized (world app) \<Longrightarrow>
   logs (snd (App_testPaymentIntent env app)) = logs app
   \<and> logs (snd (App_testCardForm env app)) = logs app
   \<and> logs (snd (App_testTokenForm env app)) = logs app
   \<and> payment (results (snd (App_testPaymentIntent env app))) = Some gate_result
   \<and> cardForm (results (snd (App_testCardForm env app))) = Some gate_result
   \<and> tokenForm (results (snd (App_testTokenForm env app))) = Some gate_result"
  by (simp add: App_testPaymentIntent_def App_testCardForm_def App_testTokenForm_def)

text \<open>
  C4, as amended. The handlers of the initialisation probe and of the CORS probe, and
  those of the three dependent probes when \<open>isSDKInitialized()\<close> is true, append exactly
  two entries: one of severity \<open>info\<close> at the start and one when the tester's promise
  has settled, of severity \<open>success\<close> when the envelope has \<open>success: true\<close> and
  \<open>error\<close> otherwise. The message of the second entry is not the envelope's own
  message: on success it is the handler's fixed success text (for the payment intent,
  with the identifier), on failure it is the handler's failure label followed by the
  envelope's message. The handler of a dependent probe appends nothing when
  \<open>isSDKInitialized()\<close> is false.
\<close>

theorem probe_handlers_log_two_entries:
  "logged_as env app (snd (testSDKInitialization env app))
     ''Starting SDK initialization test...'' (\<lambda>r. ''SDK initialized successfully!'')
     ''SDK initialization failed: '' (fst (initializeSDK env (config app) (world app)))
   \<and> logged_as env app (snd (App_testCORS env app))
     ''Testing CORS headers...'' (\<lambda>r. ''CORS test passed - Cross-origin request successful!'')
     ''CORS test failed: '' (fst (testCORS env (config app) (world app)))
   \<and> (if isSDKInitialized (world app)
      then logged_as env app (snd (App_testPaymentIntent env app))
             ''Testing payment intent creation...''
             (\<lambda>r. ''Payment intent created: '' @ data_id_text (data r))
             ''Payment intent creation failed: ''
             (fst (testPaymentIntent env (config app) (world app)))
         \<and> logged_as env app (snd (App_testCardForm env app))
             ''Testing card form mounting...'' (\<lambda>r. ''Card form mounted successfully!'')
             ''Card form mounting failed: ''
             (fst (testCardForm env (config app) ''cardFormContainer'' (world app)))
         \<and> logged_as env app (snd (App_testTokenForm env app))
             ''Testing token form mounting...'' (\<lambda>r. ''Token form mounted successfully!'')
             ''Token form mounting failed: ''
             (fst (testTokenForm env (config app) ''tokenFormContainer'' (world app)))
      else logs (snd (App_testPaymentIntent env app)) = logs app
         \<and> logs (snd (App_testCardForm env app)) = logs app
         \<and> logs (snd (App_testTokenForm env app)) = logs app)"
  using testSDKInitialization_logged [of env app] App_testCORS_logged [of env app]
    App_testPaymentIntent_logged [of app env] App_testCardForm_logged [of app env]
    App_testTokenForm_logged [of app env] gated_handlers_silent [of app env]
  by (cases "isSDKInitialized (world app)") simp_all

section \<open>The page with the friendly collaborators\<close>

lemma friendly_simps:
  "sdk_new friendly = (\<lambda>h options. None)"
  "sdk_mountCardForm friendly = (\<lambda>h client params. Fulfilled ())"
  "sdk_mountTokenForm friendly = (\<lambda>h client params. Fulfilled ())"
  "clock_now friendly = string_of_nat"
  by (simp_all add: friendly_def)

lemma string_of_nat_small:
  "string_of_nat 0 = ''0''" "string_of_nat (Suc 0) = ''1''" "string_of_nat (Suc (Suc 0)) = ''2''"
  "string_of_nat (Suc (Suc (Suc 0))) = ''3''"
  by (simp_all add: string_of_nat.simps)

lemma initial_App_simps:
  "logs initial_App = []" "clock_reads initial_App = 0"
  "tester (world initial_App) = new_AxraPayTester"
  "document (world initial_App) ''cardFormContainer'' = Some InitialHint"
  "publishableKey (config initial_App) \<noteq> []" "businessId (config initial_App) \<noteq> []"
  by (simp_all add: initial_App_def)

lemma initial_not_ready: "\<not> isSDKInitialized (world initial_App)"
  by (simp add: isSDKInitialized_def initial_App_simps new_AxraPayTester_def)

lemma initial_init_result:
  "fst (initializeSDK friendly (config initial_App) (world initial_App)) =
     Resolved \<lparr>success = True, message = ''SDK initialized successfully! Business config loaded.'',
               data = Some (InitializedData True)\<rparr>"
  by (simp add: initializeSDK_def Let_def friendly_simps initial_App_simps)

theorem probe_handlers_log_two_entries_witness:
  "logs (snd (testSDKInitialization friendly initial_App)) =
     [\<lparr>timestamp = ''0'', log_message = ''Starting SDK initialization test...'', log_type = Info\<rparr>,
      \<lparr>timestamp = ''1'', log_message = ''SDK initialized successfully!'', log_type = Success\<rparr>]
   \<and> \<not> isSDKInitialized (world initial_App)
   \<and> logs (snd (App_testPaymentIntent friendly initial_App)) = []"
  using probe_handlers_log_two_entries [of friendly initial_App] initial_not_ready
  by (simp add: initial_init_result probe_log_def initial_App_simps friendly_simps string_of_nat_small)

text \<open>
  C4 as stated fails. The initialisation probe returns the envelope message
  \<open>SDK initialized successfully! Business config loaded.\<close> while the entry logged for
  it reads \<open>SDK initialized successfully!\<close>; and the payment-intent handler, invoked
  before initialisation, appends no entry at all.
\<close>

theorem log_message_differs_from_envelope:
  "fst (initializeSDK friendly (config initial_App) (world initial_App)) =
     Resolved \<lparr>success = True, message = ''SDK initialized successfully! Business config loaded.'',
               data = Some (InitializedData True)\<rparr>
   \<and> map log_message (logs (snd (testSDKInitialization friendly initial_App))) =
       [''Starting SDK initialization test...'', ''SDK initialized successfully!'']
   \<and> ''SDK initialized successfully!'' \<noteq> ''SDK initialized successfully! Business config loaded.''
   \<and> \<not> isSDKInitialized (world initial_App)
   \<and> logs (snd (App_testPaymentIntent friendly initial_App)) = logs initial_App"
  using testSDKInitialization_logged [of friendly initial_App] initial_not_ready
    gated_handlers_silent [of initial_App friendly]
  by (simp add: initial_init_result probe_log_def initial_App_simps)

section \<open>The callbacks of a mounted widget\<close>

lemma filter_result_classes:
  "filter (\<lambda>c. c \<noteq> ''hidden'') (result_classes ty) = result_classes ty"
  by (cases ty) (simp_all add: result_classes_def)

lemma showCardFormResult_Some:
  "showCardFormResult (Some r) msg ty payload =
     Some \<lparr>className = result_classes ty,
           content = (case payload of
                        Some json \<Rightarrow> if ty = Success_type
                                     then DetailsPanel msg ''View Payment Details'' json
                                     else TextContent msg
                      | None \<Rightarrow> TextContent msg)\<rparr>"
  by (simp add: Let_def filter_result_classes split: option.splits)

lemma showTokenFormResult_Some:
  "showTokenFormResult (Some r) msg ty payload =
     Some \<lparr>className = result_classes ty,
           content = (case payload of
                        Some json \<Rightarrow> if ty = Success_type
                                     then DetailsPanel msg ''View Token Details'' json
                                     else TextContent msg
                      | None \<Rightarrow> TextContent msg)\<rparr>"
  by (simp add: Let_def filter_result_classes split: option.splits)

declare showCardFormResult.simps(2) [simp del] showTokenFormResult.simps(2) [simp del]

lemma cardForm_callback_mounted:
  "document w cid = Some (CardFormSkeleton f r) \<Longrightarrow>
   document (cardForm_callback cid msg ty payload w) cid =
     Some (CardFormSkeleton f (the (showCardFormResult (Some r) msg ty payload)))"
  by (simp add: cardForm_callback_def showCardFormResult_Some)

lemma tokenForm_callback_mounted:
  "document w cid = Some (TokenFormSkeleton f r) \<Longrightarrow>
   document (tokenForm_callback cid msg ty payload w) cid =
     Some (TokenFormSkeleton f (the (showTokenFormResult (Some r) msg ty payload)))"
  by (simp add: tokenForm_callback_def showTokenFormResult_Some)

lemma cancelled_in_messages:
  "str_includes (warning_sign @ '' Payment cancelled by user'') ''cancelled''"
  "str_includes (warning_sign @ '' Token creation cancelled by user'') ''cancelled''"
  by (simp_all add: warning_sign_def)

text \<open>
  C3, as amended. When an outcome callback of a mounted widget fires, the outcome is shown
  in the result element of the target surface, and nothing else happens: the log and the
  stored envelopes are unchanged. \<open>onSuccess\<close> shows a details panel whose message
  contains the result identifier, with the success classes; \<open>onError\<close> shows a text
  that contains the error text, with the error classes; \<open>onCancel\<close> shows a text that
  contains \<open>cancelled\<close>, with the error classes.
\<close>

theorem widget_callbacks_write_surface_only:
  "logs (widget_callback cid cb app) = logs app
   \<and> results (widget_callback cid cb app) = results app
   \<and> (document (world app) cid = Some (CardFormSkeleton f r) \<longrightarrow>
        document (world (widget_callback cid (CardSuccess pr) app)) cid =
          Some (CardFormSkeleton f
            \<lparr>className = result_classes Success_type,
             content = DetailsPanel (check_mark @ '' Payment successful! ID: '' @ payment_id pr)
                         ''View Payment Details'' (payment_json pr)\<rparr>)
      \<and> document (world (widget_callback cid (CardError e) app)) cid =
          Some (CardFormSkeleton f
            \<lparr>className = result_classes Error_type,
             content = TextContent (cross_mark @ '' Payment failed: '' @ e)\<rparr>)
      \<and> document (world (widget_callback cid CardCancel app)) cid =
          Some (CardFormSkeleton f
            \<lparr>className = result_classes Error_type,
             content = TextContent (warning_sign @ '' Payment cancelled by user'')\<rparr>))
   \<and> (document (world app) cid = Some (TokenFormSkeleton f r) \<longrightarrow>
        document (world (widget_callback cid (TokenSuccess tr) app)) cid =
          Some (TokenFormSkeleton f
            \<lparr>className = result_classes Success_type,
             content = DetailsPanel (check_mark @ '' Token created successfully! ID: '' @ token_id tr)
                         ''View Token Details'' (token_json tr)\<rparr>)
      \<and> document (world (widget_callback cid (TokenError e) app)) cid =
          Some (TokenFormSkeleton f
            \<lparr>className = result_classes Error_type,
             content = TextContent (cross_mark @ '' Token creation failed: '' @ e)\<rparr>)
      \<and> document (world (widget_callback cid TokenCancel app)) cid =
          Some (TokenFormSkeleton f
            \<lparr>className = result_classes Error_type,
             content = TextContent (warning_sign @ '' Token creation cancelled by user'')\<rparr>))
   \<and> str_includes (check_mark @ '' Payment successful! ID: '' @ payment_id pr) (payment_id pr)
   \<and> str_includes (check_mark @ '' Token created successfully! ID: '' @ token_id tr) (token_id tr)
   \<and> str_includes (cross_mark @ '' Payment failed: '' @ e) e
   \<and> str_includes (cross_mark @ '' Token creation failed: '' @ e) e
   \<and> str_includes (warning_sign @ '' Payment cancelled by user'') ''cancelled''
   \<and> str_includes (warning_sign @ '' Token creation cancelled by user'') ''cancelled''"
proof -
  have a: "logs (widget_callback cid cb app) = logs app"
    and b: "results (widget_callback cid cb app) = results app"
    by (simp_all add: widget_callback_def)
  have c: "document (world app) cid = Some (CardFormSkeleton f r) \<longrightarrow>
        document (world (widget_callback cid (CardSuccess pr) app)) cid =
          Some (CardFormSkeleton f
            \<lparr>className = result_classes Success_type,
             content = DetailsPanel (check_mark @ '' Payment successful! ID: '' @ payment_id pr)
                         ''View Payment Details'' (payment_json pr)\<rparr>)
      \<and> document (world (widget_callback cid (CardError e) app)) cid =
          Some (CardFormSkeleton f
            \<lparr>className = result_classes Error_type,
             content = TextContent (cross_mark @ '' Payment failed: '' @ e)\<rparr>)
      \<and> document (world (widget_callback cid CardCancel app)) cid =
          Some (CardFormSkeleton f
            \<lparr>className = result_classes Error_type,
             content = TextContent (warning_sign @ '' Payment cancelled by user'')\<rparr>)"
    by (simp add: widget_callback_def cardForm_onSuccess_def cardForm_onError_def
        cardForm_onCancel_def cardForm_callback_mounted showCardFormResult_Some)
  have d: "document (world app) cid = Some (TokenFormSkeleton f r) \<longrightarrow>
        document (world (widget_callback cid (TokenSuccess tr) app)) cid =
          Some (TokenFormSkeleton f
            \<lparr>className = result_classes Success_type,
             content = DetailsPanel (check_mark @ '' Token created successfully! ID: '' @ token_id tr)
                         ''View Token Details'' (token_json tr)\<rparr>)
      \<and> document (world (widget_callback cid (TokenError e) app)) cid =
          Some (TokenFormSkeleton f
            \<lparr>className = result_classes Error_type,
             content = TextContent (cross_mark @ '' Token creation failed: '' @ e)\<rparr>)
      \<and> document (world (widget_callback cid TokenCancel app)) cid =
          Some (TokenFormSkeleton f
            \<lparr>className = result_classes Error_type,
             content = TextContent (warning_sign @ '' Token creation cancelled by user'')\<rparr>)"
    by (simp add: widget_callback_def tokenForm_onSuccess_def tokenForm_onError_def
        tokenForm_onCancel_def tokenForm_callback_mounted showTokenFormResult_Some)
  have m1: "str_includes (check_mark @ '' Payment successful! ID: '' @ payment_id pr) (payment_id pr)"
    using str_includes_append_right [of "check_mark @ '' Payment successful! ID: ''" "payment_id pr"]
    by simp
  have m2: "str_includes (check_mark @ '' Token created successfully! ID: '' @ token_id tr) (token_id tr)"
    using str_includes_append_right [of "check_mark @ '' Token created successfully! ID: ''" "token_id tr"]
    by simp
  have m3: "str_includes (cross_mark @ '' Payment failed: '' @ e) e"
    using str_includes_append_right [of "cross_mark @ '' Payment failed: ''" e] by simp
  have m4: "str_includes (cross_mark @ '' Token creation failed: '' @ e) e"
    using str_includes_append_right [of "cross_mark @ '' Token creation failed: ''" e] by simp
  from a b c d m1 m2 m3 m4 cancelled_in_messages show ?thesis by blast
qed

lemma mounted_world:
  "world (acts friendly [Click_testSDKInitialization, Click_testCardForm] initial_App) =
     snd (testCardForm friendly (config initial_App) ''cardFormContainer''
            (snd (initializeSDK friendly (config initial_App) (world initial_App))))"
proof -
  have r: "isSDKInitialized (snd (initializeSDK friendly (config initial_App) (world initial_App)))"
    by (simp add: initializeSDK_ready_iff initial_init_result)
  have c: "config (snd (testSDKInitialization friendly initial_App)) = config initial_App"
    by (simp add: testSDKInitialization_def Let_def addLog_def initial_init_result)
  show ?thesis
    by (simp add: world_App_testCardForm world_testSDKInitialization r c)
qed

lemma mounted_document:
  "document (world (acts friendly [Click_testSDKInitialization, Click_testCardForm] initial_App))
     ''cardFormContainer'' = Some card_skeleton"
  unfolding mounted_world
  by (simp add: testCardForm_def testCardForm_try_def gate_closed_def Let_def record_call_def
      initializeSDK_def friendly_simps initial_App_simps)

lemma mounted_logs:
  "map log_message (logs (acts friendly [Click_testSDKInitialization, Click_testCardForm] initial_App)) =
     [''Starting SDK initialization test...'', ''SDK initialized successfully!'',
      ''Testing card form mounting...'', ''Card form mounted successfully!'']"
proof -
  let ?a1 = "snd (testSDKInitialization friendly initial_App)"
  have l1: "map log_message (logs ?a1) =
      [''Starting SDK initialization test...'', ''SDK initialized successfully!'']"
    using testSDKInitialization_logged [of friendly initial_App]
    by (simp add: initial_init_result probe_log_def initial_App_simps)
  have w1: "world ?a1 = snd (initializeSDK friendly (config initial_App) (world initial_App))"
    by (rule world_testSDKInitialization)
  have r: "isSDKInitialized (world ?a1)"
    by (simp add: w1 initializeSDK_ready_iff initial_init_result)
  have c: "config ?a1 = config initial_App"
    by (simp add: testSDKInitialization_def Let_def addLog_def initial_init_result)
  have m: "succeeded (fst (testCardForm friendly (config ?a1) ''cardFormContainer'' (world ?a1)))"
    unfolding w1 c
    by (simp add: testCardForm_def testCardForm_try_def gate_closed_def Let_def record_call_def
        initializeSDK_def friendly_simps initial_App_simps)
  then obtain res where p: "fst (testCardForm friendly (config ?a1) ''cardFormContainer'' (world ?a1)) = Resolved res"
    and s: "success res"
    by (cases "fst (testCardForm friendly (config ?a1) ''cardFormContainer'' (world ?a1))") simp_all
  from App_testCardForm_logged [OF r, of friendly] l1 p s
  show ?thesis by (simp add: probe_log_def)
qed

theorem widget_callbacks_write_surface_only_witness:
  "document (world (acts friendly [Click_testSDKInitialization, Click_testCardForm] initial_App))
     ''cardFormContainer'' = Some (CardFormSkeleton (LoadingIndicator ''Loading AxraPay Card Form...'') hidden_result)
   \<and> document (world (widget_callback ''cardFormContainer'' (CardError ''card declined'')
        (acts friendly [Click_testSDKInitialization, Click_testCardForm] initial_App)))
       ''cardFormContainer'' =
     Some (CardFormSkeleton (LoadingIndicator ''Loading AxraPay Card Form...'')
            \<lparr>className = result_classes Error_type,
             content = TextContent (cross_mark @ '' Payment failed: card declined'')\<rparr>)"
proof -
  have h: "document (world (acts friendly [Click_testSDKInitialization, Click_testCardForm] initial_App))
     ''cardFormContainer'' = Some (CardFormSkeleton (LoadingIndicator ''Loading AxraPay Card Form...'') hidden_result)"
    using mounted_document by (simp add: card_skeleton_def)
  from widget_callbacks_write_surface_only
         [where cid = "''cardFormContainer''"
            and app = "acts friendly [Click_testSDKInitialization, Click_testCardForm] initial_App"
            and f = "LoadingIndicator ''Loading AxraPay Card Form...''" and r = hidden_result
            and e = "''card declined''"] h
  show ?thesis by simp
qed

text \<open>
  C3 as stated fails. After initialisation and a successful mount of the card form, the
  \<open>onCancel\<close> callback writes its text to the surface, but the log still holds the
  four entries of the two probes and the stored envelopes are the same: no second
  envelope and no log entry.
\<close>

theorem widget_callback_adds_no_log_entry:
  "map log_message
     (logs (acts friendly
        [Click_testSDKInitialization, Click_testCardForm,
         Widget_callback ''cardFormContainer'' CardCancel] initial_App)) =
     [''Starting SDK initialization test...'', ''SDK initialized successfully!'',
      ''Testing card form mounting...'', ''Card form mounted successfully!'']
   \<and> results (acts friendly
        [Click_testSDKInitialization, Click_testCardForm,
         Widget_callback ''cardFormContainer'' CardCancel] initial_App) =
     results (acts friendly [Click_testSDKInitialization, Click_testCardForm] initial_App)
   \<and> document (world (acts friendly
        [Click_testSDKInitialization, Click_testCardForm,
         Widget_callback ''cardFormContainer'' CardCancel] initial_App)) ''cardFormContainer'' =
     Some (CardFormSkeleton (LoadingIndicator ''Loading AxraPay Card Form...'')
            \<lparr>className = result_classes Error_type,
             content = TextContent (warning_sign @ '' Payment cancelled by user'')\<rparr>)"
proof -
  let ?m = "acts friendly [Click_testSDKInitialization, Click_testCardForm] initial_App"
  have e: "acts friendly
        [Click_testSDKInitialization, Click_testCardForm,
         Widget_callback ''cardFormContainer'' CardCancel] initial_App =
        widget_callback ''cardFormContainer'' CardCancel ?m"
    by simp
  have d: "document (world (widget_callback ''cardFormContainer'' CardCancel ?m)) ''cardFormContainer'' =
     Some (CardFormSkeleton (LoadingIndicator ''Loading AxraPay Card Form...'')
            \<lparr>className = result_classes Error_type,
             content = TextContent (warning_sign @ '' Payment cancelled by user'')\<rparr>)"
    using mounted_document
    by (simp add: widget_callback_def cardForm_onCancel_def card_skeleton_def
        cardForm_callback_mounted showCardFormResult_Some)
  have l: "logs (widget_callback ''cardFormContainer'' CardCancel ?m) = logs ?m"
    and r: "results (widget_callback ''cardFormContainer'' CardCancel ?m) = results ?m"
    by (simp_all add: widget_callback_def)
  show ?thesis unfolding e using d l r mounted_logs by simp
qed


section \<open>A stale callback after a second mount\<close>





end
